theory Spec2Isabelle
  imports Complex_Main
begin

section \<open>Numerical conventions\<close>

text \<open>
  The programs are NumPy programs on double-precision arrays. A finite float is embedded
  as a \<^typ>\<open>real\<close>: rounding is not modelled. Where the source leaves the finite values or
  masks an entry, this is written out:
  \<^item> a float is a \<open>fl\<close>: \<open>Some x\<close> for the finite value \<open>x\<close>, \<open>None\<close> for a NaN or an infinity;
    a non-finite operand makes a sum or a product non-finite, and a comparison with it
    is false;
  \<^item> an entry of a \<open>numpy.ma\<close> masked array is a \<open>masked\<close>: \<open>Some x\<close> for the unmasked value
    \<open>x\<close>, \<open>None\<close> for a masked entry. The quotient \<open>a / b\<close> of masked arrays is masked where
    NumPy's domain test \<open>|a| * finfo(float).tiny >= |b|\<close> holds (a divisor that is zero, or
    so small that it is lost to underflow) and where \<open>b\<close> is not finite; the logarithm of
    a masked array masks every entry whose argument is not positive;
  \<^item> the masked constant \<open>numpy.ma.masked\<close> stored into a float array is stored as NaN.
  A Python exception is a value \<open>Inl e\<close> of the result type.
\<close>

datatype py_error =
  AssertionError | ValueError | IndexError | KeyError | NameError | TypeError

type_synonym fl = "real option"

type_synonym masked = "real option"

definition fl_times :: "fl \<Rightarrow> fl \<Rightarrow> fl" where
  "fl_times a b = (case a of None \<Rightarrow> None | Some x \<Rightarrow> map_option (\<lambda>y. x * y) b)"

definition fl_plus :: "fl \<Rightarrow> fl \<Rightarrow> fl" where
  "fl_plus a b = (case a of None \<Rightarrow> None | Some x \<Rightarrow> map_option (\<lambda>y. x + y) b)"

definition fl_sum :: "fl list \<Rightarrow> fl" where
  "fl_sum xs = foldr fl_plus xs (Some 0)"

text \<open>The comparison \<open>a > 0\<close> of a float, and \<open>finfo(float).tiny\<close>, the least normal double.\<close>

definition fl_positive :: "fl \<Rightarrow> bool" where
  "fl_positive a = (case a of None \<Rightarrow> False | Some x \<Rightarrow> 0 < x)"

definition np_tiny :: real where
  "np_tiny = 1 / 2 ^ 1022"

text \<open>
  Broadcasting of two one-dimensional arrays (or two columns): equal lengths pair up, a
  length-one array is repeated, anything else raises \<open>ValueError\<close>.
\<close>

definition np_broadcast :: "'a list \<Rightarrow> 'b list \<Rightarrow> py_error + ('a \<times> 'b) list" where
  "np_broadcast xs ys =
     (if length xs = length ys then Inr (zip xs ys)
      else if length xs = 1 then Inr (zip (replicate (length ys) (hd xs)) ys)
      else if length ys = 1 then Inr (zip xs (replicate (length xs) (hd ys)))
      else Inl ValueError)"

section \<open>The normalized Gaussian model (fitting/fit/normalized\_mbis.py)\<close>

text \<open>
  \<open>get_normalization_constant\<close>: \<open>4 * exponent**(3/2) / np.pi**(1/2)\<close>. The real power is
  exact for a non-negative exponent (NumPy yields NaN for a negative one, which a real
  does not represent).
\<close>

definition get_normalization_constant :: "real \<Rightarrow> real" where
  "get_normalization_constant exponent = 4 * exponent powr (3 / 2) / pi powr (1 / 2)"

text \<open>
  \<open>normalized_gaussian_model\<close>. The grid is a column array of shape (N, 1), given as the
  list of its N points; \<open>exponential\<close> is the N-by-M array \<open>exp(-exponents * grid**2)\<close>, and
  \<open>np.dot\<close> raises \<open>ValueError\<close> when its second argument has not M entries. The
  coefficients are floats: inside the fixed-iteration loop they may be NaN, and then so
  is the density.
\<close>

definition normalized_gaussian_model ::
    "fl list \<Rightarrow> real list \<Rightarrow> real list \<Rightarrow> py_error + fl list" where
  "normalized_gaussian_model coefficients exponents grid =
     (case np_broadcast (map get_normalization_constant exponents) coefficients of
        Inl e \<Rightarrow> Inl e
      | Inr pairs \<Rightarrow>
          let normalized_coeffs = map (\<lambda>(n, c). fl_times (Some n) c) pairs in
          if length exponents = length normalized_coeffs
          then Inr (map (\<lambda>r. fl_sum (map (\<lambda>(z, nc). fl_times (Some (exp (- z * r ^ 2))) nc)
                                         (zip exponents normalized_coeffs))) grid)
          else Inl ValueError)"

subsection \<open>Trapezoidal rule\<close>

text \<open>\<open>np.diff(x)\<close> and the sums \<open>y[1:] + y[:-1]\<close> of neighbouring samples.\<close>

fun np_diff :: "real list \<Rightarrow> real list" where
  "np_diff (a # b # xs) = (b - a) # np_diff (b # xs)"
| "np_diff xs = []"

fun pair_sums :: "fl list \<Rightarrow> fl list" where
  "pair_sums (a # b # ys) = fl_plus b a # pair_sums (b # ys)"
| "pair_sums ys = []"

text \<open>\<open>np.trapz(y, x)\<close> on plain arrays: \<open>(d * (y[1:] + y[:-1]) / 2.0).sum()\<close>.\<close>

definition np_trapz :: "fl list \<Rightarrow> real list \<Rightarrow> py_error + fl" where
  "np_trapz y x =
     (case np_broadcast (np_diff x) (pair_sums y) of
        Inl e \<Rightarrow> Inl e
      | Inr ps \<Rightarrow> Inr (fl_sum (map (\<lambda>(d, s). map_option (\<lambda>v. d * v / 2) s) ps)))"

text \<open>
  The same on a masked array \<open>y\<close>: a sum of two samples is masked when one of them is,
  the sum over the intervals skips the masked ones, and it is the constant
  \<open>numpy.ma.masked\<close> (here \<open>None\<close>) when every interval is masked, also when there is none.
\<close>

definition ma_add :: "masked \<Rightarrow> masked \<Rightarrow> masked" where
  "ma_add a b = (case a of None \<Rightarrow> None | Some x \<Rightarrow> map_option (\<lambda>y. x + y) b)"

fun ma_pair_sums :: "masked list \<Rightarrow> masked list" where
  "ma_pair_sums (a # b # ys) = ma_add b a # ma_pair_sums (b # ys)"
| "ma_pair_sums ys = []"

definition ma_filled0 :: "masked \<Rightarrow> real" where
  "ma_filled0 t = (case t of None \<Rightarrow> 0 | Some v \<Rightarrow> v)"

definition ma_trapz :: "masked list \<Rightarrow> real list \<Rightarrow> py_error + masked" where
  "ma_trapz y x =
     (case np_broadcast (np_diff x) (ma_pair_sums y) of
        Inl e \<Rightarrow> Inl e
      | Inr ps \<Rightarrow>
          let terms = map (\<lambda>(d, s). map_option (\<lambda>v. d * v / 2) s) ps in
          Inr (if list_all (\<lambda>t. t = None) terms then None
               else Some (sum_list (map ma_filled0 terms))))"

text \<open>
  Division of a masked array of finite values by one whose data are floats: the
  quotient is masked where the divisor is not finite or fails the domain test of
  \<open>numpy.ma\<close>, \<open>|a| * tiny >= |b|\<close>.
\<close>

definition ma_divide :: "real \<Rightarrow> fl \<Rightarrow> masked" where
  "ma_divide a b =
     (case b of
        None \<Rightarrow> None
      | Some y \<Rightarrow> if \<bar>a\<bar> * np_tiny \<ge> \<bar>y\<bar> then None else Some (a / y))"

subsection \<open>Diagnostics\<close>

text \<open>
  \<open>integrate_error\<close>: the trapezoidal integral of \<open>grid**2 * |model - density|\<close>;
  \<open>integrate_normalized_model\<close>: that of \<open>grid**2 * model\<close>.
\<close>

definition integrate_error ::
    "fl list \<Rightarrow> real list \<Rightarrow> real list \<Rightarrow> real list \<Rightarrow> py_error + fl" where
  "integrate_error coefficients exponents electron_density grid =
     (case normalized_gaussian_model coefficients exponents grid of
        Inl e \<Rightarrow> Inl e
      | Inr gaussian_model \<Rightarrow>
          (case np_broadcast gaussian_model electron_density of
             Inl e \<Rightarrow> Inl e
           | Inr md \<Rightarrow>
               (case np_broadcast (map (\<lambda>r. r ^ 2) grid)
                       (map (\<lambda>(m, d). map_option (\<lambda>v. \<bar>v - d\<bar>) m) md) of
                  Inl e \<Rightarrow> Inl e
                | Inr ys \<Rightarrow> np_trapz (map (\<lambda>(r2, a). map_option (\<lambda>v. r2 * v) a) ys) grid)))"

definition integrate_normalized_model ::
    "fl list \<Rightarrow> real list \<Rightarrow> real list \<Rightarrow> real list \<Rightarrow> py_error + fl" where
  "integrate_normalized_model coefficients exponents electron_density grid =
     (case normalized_gaussian_model coefficients exponents grid of
        Inl e \<Rightarrow> Inl e
      | Inr gaussian_model \<Rightarrow>
          np_trapz (map (\<lambda>(r, m). map_option (\<lambda>v. r ^ 2 * v) m) (zip grid gaussian_model))
            grid)"

text \<open>
  \<open>KL_objective_function\<close>. Both densities become masked arrays with no entry masked;
  the line clamping the model density is commented out in the source, so the ratio is
  formed with the model density as computed. The result is a float or the constant
  \<open>numpy.ma.masked\<close>.
\<close>

definition ma_log :: "masked \<Rightarrow> masked" where
  "ma_log q = (case q of None \<Rightarrow> None | Some v \<Rightarrow> if v \<le> 0 then None else Some (ln v))"

definition KL_objective_function ::
    "fl list \<Rightarrow> real list \<Rightarrow> real list \<Rightarrow> real list \<Rightarrow> py_error + masked" where
  "KL_objective_function coefficients exponents true_density grid =
     (case normalized_gaussian_model coefficients exponents grid of
        Inl e \<Rightarrow> Inl e
      | Inr gaussian_density \<Rightarrow>
          (case np_broadcast true_density gaussian_density of
             Inl e \<Rightarrow> Inl e
           | Inr dg \<Rightarrow>
               let ratio = map (\<lambda>(d, g). ma_divide d g) dg in
               (case np_broadcast true_density (map ma_log ratio) of
                  Inl e \<Rightarrow> Inl e
                | Inr dl \<Rightarrow>
                    ma_trapz (map (\<lambda>(d, l). map_option (\<lambda>v. d * v) l) dl) grid)))"

subsection \<open>The coefficient update\<close>

text \<open>A loop that fills a result array stops at the first exception.\<close>

fun collect_results :: "(py_error + 'a) list \<Rightarrow> py_error + 'a list" where
  "collect_results [] = Inr []"
| "collect_results (r # rs) =
     (case r of
        Inl e \<Rightarrow> Inl e
      | Inr v \<Rightarrow> (case collect_results rs of Inl e \<Rightarrow> Inl e | Inr vs \<Rightarrow> Inr (v # vs)))"

text \<open>
  \<open>update_coefficients\<close>: three assertions (a NaN coefficient fails the first), the model
  density clamped below at \<open>masked_value\<close>, the masked ratio, then for each primitive the
  factor times the trapezoidal integral. When the integral is the masked constant, so
  is the product, and the assignment into the float array \<open>new_coefficients\<close> stores NaN.
\<close>

definition update_coefficients ::
    "fl list \<Rightarrow> real list \<Rightarrow> real list \<Rightarrow> real list \<Rightarrow> real \<Rightarrow> py_error + fl list" where
  "update_coefficients initial_coeffs constant_exponents electron_density grid masked_value =
     (if \<not> list_all fl_positive initial_coeffs then Inl AssertionError
      else if length initial_coeffs = length constant_exponents then
        if length electron_density = length grid then
          (case normalized_gaussian_model initial_coeffs constant_exponents grid of
             Inl e \<Rightarrow> Inl e
           | Inr gaussian_density \<Rightarrow>
               let masked_gaussian_density =
                     map (map_option (\<lambda>g. if g \<le> masked_value then masked_value else g))
                         gaussian_density;
                   ratio = map (\<lambda>(d, g). ma_divide d g)
                               (zip electron_density masked_gaussian_density)
               in collect_results (map (\<lambda>i.
                    let factor = fl_times (initial_coeffs ! i)
                                   (Some (get_normalization_constant (constant_exponents ! i)));
                        integrand = map (\<lambda>(q, r). map_option
                                           (\<lambda>v. v * exp (- (constant_exponents ! i) * r ^ 2) * r ^ 2) q)
                                        (zip ratio grid)
                    in (case ma_trapz integrand grid of
                          Inl e \<Rightarrow> Inl e
                        | Inr None \<Rightarrow> Inr None
                        | Inr (Some s) \<Rightarrow> Inr (fl_times factor (Some s))))
                    [0..<length initial_coeffs]))
        else Inl AssertionError
      else Inl AssertionError)"

subsection \<open>The fixed-iteration method\<close>

text \<open>
  The local variables of \<open>fixed_iteration_MBIS_method\<close> that its loop reads or writes.
  \<open>error_array\<close> is the list of six lists. An entry of the first two is a float (\<open>None\<close>
  is NaN), an entry of the third is a float or the masked constant (\<open>None\<close>).
\<close>

record mbis_state =
  old_coefficients :: "fl list"
  new_coefficients :: "fl list"
  exponents :: "real list"
  counter :: nat
  error_array :: "real option list list"

text \<open>
  The names \<open>coeffs\<close> and \<open>exps\<close> of the return statement are not local: they are module
  globals, bound only when the file runs as a script.
\<close>

record module_globals =
  coeffs :: "real list option"
  exps :: "real list option"

definition append_at :: "nat \<Rightarrow> 'a \<Rightarrow> 'a list list \<Rightarrow> 'a list list" where
  "append_at i v ls = ls[i := ls ! i @ [v]]"

definition mbis_iteration ::
    "real list \<Rightarrow> real list \<Rightarrow> real \<Rightarrow> mbis_state \<Rightarrow> py_error + mbis_state" where
  "mbis_iteration electron_density grid masked_value st =
     (let temp_coefficients = new_coefficients st in
      case update_coefficients (old_coefficients st) (exponents st) electron_density grid
             masked_value of
        Inl e \<Rightarrow> Inl e
      | Inr new \<Rightarrow>
      (case normalized_gaussian_model new (exponents st) grid of
        Inl e \<Rightarrow> Inl e
      | Inr approx_model \<Rightarrow>
      (case integrate_error new (exponents st) electron_density grid of
        Inl e \<Rightarrow> Inl e
      | Inr inte_error \<Rightarrow>
      (case integrate_normalized_model new (exponents st) electron_density grid of
        Inl e \<Rightarrow> Inl e
      | Inr integration_model \<Rightarrow>
      (case KL_objective_function new (exponents st) electron_density grid of
        Inl e \<Rightarrow> Inl e
      | Inr obj_func_error \<Rightarrow>
          Inr (st\<lparr>old_coefficients := temp_coefficients,
                  new_coefficients := new,
                  counter := counter st + 1,
                  error_array :=
                    append_at 2 obj_func_error
                      (append_at 1 integration_model
                        (append_at 0 inte_error (error_array st)))\<rparr>))))))"

fun mbis_loop ::
    "nat \<Rightarrow> real list \<Rightarrow> real list \<Rightarrow> real \<Rightarrow> mbis_state \<Rightarrow> py_error + mbis_state" where
  "mbis_loop 0 electron_density grid masked_value st = Inr st"
| "mbis_loop (Suc n) electron_density grid masked_value st =
     (case mbis_iteration electron_density grid masked_value st of
        Inl e \<Rightarrow> Inl e
      | Inr st' \<Rightarrow> mbis_loop n electron_density grid masked_value st')"

definition mbis_initial_state :: "fl list \<Rightarrow> real list \<Rightarrow> mbis_state" where
  "mbis_initial_state coefficients exps0 =
     \<lparr>old_coefficients = coefficients, new_coefficients = coefficients,
      exponents = exps0, counter = 0, error_array = [[], [], [], [], [], []]\<rparr>"

text \<open>
  \<open>range(0, num_of_iterations)\<close> is empty for a negative budget. The method returns
  \<open>((coeffs, exps), error_array)\<close>; an unbound global raises \<open>NameError\<close>.
\<close>

definition fixed_iteration_MBIS_method ::
    "module_globals \<Rightarrow> fl list \<Rightarrow> real list \<Rightarrow> real list \<Rightarrow> real list \<Rightarrow> int \<Rightarrow> real
       \<Rightarrow> py_error + ((real list \<times> real list) \<times> real option list list)" where
  "fixed_iteration_MBIS_method globals coefficients exps0 electron_density grid
       num_of_iterations masked_value =
     (case mbis_loop (nat num_of_iterations) electron_density grid masked_value
             (mbis_initial_state coefficients exps0) of
        Inl e \<Rightarrow> Inl e
      | Inr st \<Rightarrow>
          (case coeffs globals of
             None \<Rightarrow> Inl NameError
           | Some cs \<Rightarrow>
               (case exps globals of
                  None \<Rightarrow> Inl NameError
                | Some es \<Rightarrow> Inr ((cs, es), error_array st))))"

section \<open>The closed forms of the specification\<close>

text \<open>
  The quantities of the coefficient update in the words of the specification, indexed by
  primitive \<open>i\<close> and grid point \<open>j\<close>: the normalization \<open>N(zeta) = 4 pi (zeta / pi)^(3/2)\<close> (the
  normalization of an S-type Gaussian with the factor \<open>4 pi\<close> of the volume element), the
  model density \<open>sum_i c_i N(zeta_i) exp(-zeta_i r^2)\<close>, the trapezoidal rule over the grid
  and the updated coefficient
  \<open>c_i N(zeta_i) int (rho / max(model, mask)) exp(-zeta_i r^2) r^2 dr\<close>.
\<close>

definition spec_normalization :: "real \<Rightarrow> real" where
  "spec_normalization zeta = 4 * pi * (zeta / pi) powr (3 / 2)"

definition spec_model_density :: "real list \<Rightarrow> real list \<Rightarrow> real \<Rightarrow> real" where
  "spec_model_density c z r =
     (\<Sum>i<length c. c ! i * spec_normalization (z ! i) * exp (- (z ! i) * r ^ 2))"

definition spec_trapezoid :: "real list \<Rightarrow> (nat \<Rightarrow> real) \<Rightarrow> real" where
  "spec_trapezoid x f = (\<Sum>k<length x - 1. (x ! (k + 1) - x ! k) * (f k + f (k + 1)) / 2)"

definition spec_coefficient_update ::
    "real list \<Rightarrow> real list \<Rightarrow> real list \<Rightarrow> real list \<Rightarrow> real \<Rightarrow> nat \<Rightarrow> real" where
  "spec_coefficient_update c z rho r mv i =
     c ! i * spec_normalization (z ! i)
       * spec_trapezoid r (\<lambda>j. rho ! j / max (spec_model_density c z (r ! j)) mv
                                  * exp (- (z ! i) * (r ! j) ^ 2) * (r ! j) ^ 2)"

text \<open>
  The same quantities with the masking of \<open>numpy.ma\<close>. The ratio at grid point \<open>j\<close> is masked
  where the true density times \<open>finfo(float).tiny\<close> reaches the clamped model density. An
  interval of the trapezoidal rule counts only if neither of its end points is masked,
  the sum runs over the intervals that count, and it is masked if none does. The
  updated coefficient is NaN (\<open>None\<close>) when its integral is masked.
\<close>

definition spec_interval :: "real list \<Rightarrow> (nat \<Rightarrow> masked) \<Rightarrow> nat \<Rightarrow> masked" where
  "spec_interval x f k =
     (case f k of
        None \<Rightarrow> None
      | Some a \<Rightarrow>
          (case f (k + 1) of
             None \<Rightarrow> None
           | Some b \<Rightarrow> Some ((x ! (k + 1) - x ! k) * (a + b) / 2)))"

definition spec_masked_trapezoid :: "real list \<Rightarrow> (nat \<Rightarrow> masked) \<Rightarrow> masked" where
  "spec_masked_trapezoid x f =
     (if list_all (\<lambda>k. spec_interval x f k = None) [0..<length x - 1] then None
      else Some (\<Sum>k<length x - 1. case spec_interval x f k of None \<Rightarrow> 0 | Some v \<Rightarrow> v))"

definition spec_ratio ::
    "real list \<Rightarrow> real list \<Rightarrow> real list \<Rightarrow> real list \<Rightarrow> real \<Rightarrow> nat \<Rightarrow> masked" where
  "spec_ratio c z rho r mv j =
     (if \<bar>rho ! j\<bar> * np_tiny \<ge> \<bar>max (spec_model_density c z (r ! j)) mv\<bar> then None
      else Some (rho ! j / max (spec_model_density c z (r ! j)) mv))"

definition spec_masked_update ::
    "real list \<Rightarrow> real list \<Rightarrow> real list \<Rightarrow> real list \<Rightarrow> real \<Rightarrow> nat \<Rightarrow> fl" where
  "spec_masked_update c z rho r mv i =
     map_option (\<lambda>s. c ! i * spec_normalization (z ! i) * s)
       (spec_masked_trapezoid r
          (\<lambda>j. map_option (\<lambda>q. q * exp (- (z ! i) * (r ! j) ^ 2) * (r ! j) ^ 2)
                  (spec_ratio c z rho r mv j)))"

text \<open>The shape of the history after \<open>n\<close> iterations from the initial state.\<close>

definition history_after ::
    "nat \<Rightarrow> fl list \<Rightarrow> real list \<Rightarrow> real list \<Rightarrow> real list \<Rightarrow> real \<Rightarrow> mbis_state \<Rightarrow> bool" where
  "history_after n c z rho g mv st \<longleftrightarrow>
     counter st = n \<and> exponents st = z \<and>
     (\<exists>errs masses objs.
        error_array st = [errs, masses, objs, [], [], []]
      \<and> length errs = n \<and> length masses = n \<and> length objs = n
      \<and> (\<forall>j<n. \<exists>s.
             mbis_loop (Suc j) rho g mv (mbis_initial_state c z) = Inr s
           \<and> integrate_error (new_coefficients s) z rho g = Inr (errs ! j)
           \<and> integrate_normalized_model (new_coefficients s) z rho g = Inr (masses ! j)
           \<and> KL_objective_function (new_coefficients s) z rho g = Inr (objs ! j)))"




section \<open>Slater atomic densities (bfit/density.py)\<close>

text \<open>
  An entry of an array of this module is a \<open>fl\<close>. Division by zero, a negative power of
  zero and the square root of a negative number are the operations of the module that
  leave the finite values.
\<close>

definition fl_divide :: "real \<Rightarrow> real \<Rightarrow> fl" where
  "fl_divide x y = (if y = 0 then None else Some (x / y))"

definition fl_power :: "real \<Rightarrow> int \<Rightarrow> fl" where
  "fl_power x k = (if x = 0 \<and> k < 0 then None else Some (x powi k))"

definition fl_sqrt :: "fl \<Rightarrow> fl" where
  "fl_sqrt a = (case a of None \<Rightarrow> None | Some x \<Rightarrow> if x < 0 then None else Some (sqrt x))"

text \<open>\<open>scipy.special.factorial\<close> on an integer-valued argument: 0 below zero.\<close>

definition sp_factorial :: "int \<Rightarrow> real" where
  "sp_factorial k = (if k < 0 then 0 else fact (nat k))"

text \<open>
  An array with its shape; \<open>ndim\<close> is the length of the shape. \<open>array1\<close> builds the
  one-dimensional array of a list of points.
\<close>

record ndarray =
  shape :: "nat list"
  flat :: "real list"

definition array1 :: "real list \<Rightarrow> ndarray" where
  "array1 xs = \<lparr>shape = [length xs], flat = xs\<rparr>"

text \<open>
  \<open>slater_orbital\<close>. The exponents and the quantum numbers are columns of shape (M, 1),
  given as lists, and broadcast against each other; the result has one row for each
  point and one column for each Slater function.
\<close>

definition slater_orbital ::
    "real list \<Rightarrow> int list \<Rightarrow> ndarray \<Rightarrow> py_error + fl list list" where
  "slater_orbital exponent number points =
     (if length (shape points) = 1 then
        (case np_broadcast exponent number of
           Inl e \<Rightarrow> Inl e
         | Inr zn \<Rightarrow>
             let norm = map (\<lambda>(z, n). fl_times (fl_power (2 * z) n)
                                        (fl_sqrt (fl_divide (2 * z) (sp_factorial (2 * n))))) zn
             in Inr (map (\<lambda>r. map (\<lambda>((z, n), nm).
                                      fl_times (fl_times nm (fl_power r (n - 1)))
                                               (Some (exp (- z * r))))
                                   (zip zn norm))
                         (flat points)))
      else Inl ValueError)"

text \<open>
  \<open>derivative_slater_type_orbital\<close>: the prefactor \<open>(n - 1) / r - zeta\<close>, with every row
  whose point is below \<open>1e-10\<close> in absolute value overwritten by 0, times the orbital.
\<close>

definition derivative_slater_type_orbital ::
    "real list \<Rightarrow> int list \<Rightarrow> ndarray \<Rightarrow> py_error + fl list list" where
  "derivative_slater_type_orbital exponent number points =
     (case slater_orbital exponent number points of
        Inl e \<Rightarrow> Inl e
      | Inr slater \<Rightarrow>
          (case np_broadcast exponent number of
             Inl e \<Rightarrow> Inl e
           | Inr zn \<Rightarrow>
               Inr (map (\<lambda>(r, slater_row).
                      map (\<lambda>((z, n), s).
                             let deriv_pref =
                                   (if \<bar>r\<bar> < 1 / 10 ^ 10 then Some 0
                                    else map_option (\<lambda>q. q - z) (fl_divide (of_int n - 1) r))
                             in fl_times deriv_pref s)
                          (zip zn slater_row))
                    (zip (flat points) slater))))"

text \<open>The fields of a \<open>SlaterAtoms\<close> object that the density uses.\<close>

record slater_atoms =
  orbitals :: "string list"
  orbitals_occupation :: "real list"
  orbitals_exp :: "string \<rightharpoonup> real list"
  basis_numbers :: "string \<rightharpoonup> int list"
  orbitals_coeff :: "string \<rightharpoonup> real list"
  orbitals_energy :: "real list"

text \<open>Indexing with an integer: a negative index counts from the end.\<close>

definition py_index :: "'a list \<Rightarrow> int \<Rightarrow> py_error + 'a" where
  "py_index xs i =
     (if 0 \<le> i then (if i < int (length xs) then Inr (xs ! nat i) else Inl IndexError)
      else (if 0 \<le> int (length xs) + i then Inr (xs ! nat (int (length xs) + i))
            else Inl IndexError))"

text \<open>
  One column of \<open>phi_matrix\<close>: the Slater functions of the orbital's angular type (the
  second character of its name) combined with the orbital's coefficients by \<open>np.dot\<close>,
  which raises \<open>ValueError\<close> unless there is one coefficient for each Slater function.
\<close>

definition orbital_column ::
    "slater_atoms \<Rightarrow> ndarray \<Rightarrow> bool \<Rightarrow> string \<Rightarrow> py_error + fl list" where
  "orbital_column a points deriv orbital =
     (if length orbital < 2 then Inl IndexError
      else
        (case orbitals_exp a [orbital ! 1] of
           None \<Rightarrow> Inl KeyError
         | Some exps0 \<Rightarrow>
        (case basis_numbers a [orbital ! 1] of
           None \<Rightarrow> Inl KeyError
         | Some number \<Rightarrow>
        (case (if deriv then derivative_slater_type_orbital exps0 number points
               else slater_orbital exps0 number points) of
           Inl e \<Rightarrow> Inl e
         | Inr slater \<Rightarrow>
        (case orbitals_coeff a orbital of
           None \<Rightarrow> Inl KeyError
         | Some coeff \<Rightarrow>
        (case np_broadcast exps0 number of
           Inl e \<Rightarrow> Inl e
         | Inr zn \<Rightarrow>
             if length zn = length coeff
             then Inr (map (\<lambda>row. fl_sum (map (\<lambda>(s, c). fl_times s (Some c)) (zip row coeff)))
                           slater)
             else Inl ValueError))))))"

text \<open>
  \<open>phi_matrix\<close>, as the list of its rows (one for each point); \<open>len(points)\<close> raises
  \<open>TypeError\<close> on a zero-dimensional array.
\<close>

definition phi_matrix :: "slater_atoms \<Rightarrow> ndarray \<Rightarrow> bool \<Rightarrow> py_error + fl list list" where
  "phi_matrix a points deriv =
     (case shape points of
        [] \<Rightarrow> Inl TypeError
      | len # _ \<Rightarrow>
          (case collect_results (map (orbital_column a points deriv) (orbitals a)) of
             Inl e \<Rightarrow> Inl e
           | Inr columns \<Rightarrow> Inr (map (\<lambda>j. map (\<lambda>col. col ! j) columns) [0..<len])))"

text \<open>
  The occupation numbers \<open>orb_occs\<close> of \<open>atomic_density\<close> for a mode: the reference energy
  \<open>orb_homo\<close> is the entry of \<open>orbitals_energy\<close> at index \<open>len(orbitals_occupation) - 1\<close>.
\<close>

definition orb_occs :: "slater_atoms \<Rightarrow> string \<Rightarrow> py_error + real list" where
  "orb_occs a mode =
     (if mode = ''valence'' then
        (case py_index (orbitals_energy a) (int (length (orbitals_occupation a)) - 1) of
           Inl e \<Rightarrow> Inl e
         | Inr orb_homo \<Rightarrow>
             (case np_broadcast (orbitals_occupation a) (orbitals_energy a) of
                Inl e \<Rightarrow> Inl e
              | Inr oe \<Rightarrow> Inr (map (\<lambda>(occ, en). occ * exp (- ((en - orb_homo) ^ 2))) oe)))
      else if mode = ''core'' then
        (case py_index (orbitals_energy a) (int (length (orbitals_occupation a)) - 1) of
           Inl e \<Rightarrow> Inl e
         | Inr orb_homo \<Rightarrow>
             (case np_broadcast (orbitals_occupation a) (orbitals_energy a) of
                Inl e \<Rightarrow> Inl e
              | Inr oe \<Rightarrow>
                  Inr (map (\<lambda>(occ, en). occ * (1 - exp (- ((en - orb_homo) ^ 2)))) oe)))
      else Inr (orbitals_occupation a))"

text \<open>
  \<open>atomic_density\<close>: the squared \<open>phi_matrix\<close> times the occupation numbers, over \<open>4 pi\<close>.
\<close>

definition atomic_density :: "slater_atoms \<Rightarrow> ndarray \<Rightarrow> string \<Rightarrow> py_error + fl list" where
  "atomic_density a points mode =
     (if mode \<in> set [''total'', ''valence'', ''core''] then
        (case orb_occs a mode of
           Inl e \<Rightarrow> Inl e
         | Inr occs \<Rightarrow>
             (case phi_matrix a points False of
                Inl e \<Rightarrow> Inl e
              | Inr phi \<Rightarrow>
                  if length (orbitals a) = length occs
                  then Inr (map (\<lambda>row. map_option (\<lambda>d. d / (4 * pi))
                                   (fl_sum (map (\<lambda>(p, w). fl_times (fl_times p p) (Some w))
                                                (zip row occs))))
                                phi)
                  else Inl ValueError))
      else Inl ValueError)"

text \<open>
  The Slater function in the words of the specification, for a quantum number \<open>n \<ge> 1\<close>:
  \<open>(2 zeta)^n * sqrt(2 zeta / (2 n)!) * r^(n - 1) * exp(-zeta r)\<close>.
\<close>

definition spec_slater :: "real \<Rightarrow> int \<Rightarrow> real \<Rightarrow> real" where
  "spec_slater zeta n r =
     (2 * zeta) ^ nat n * sqrt (2 * zeta / fact (nat (2 * n))) * r ^ nat (n - 1)
       * exp (- zeta * r)"

text \<open>
  Potassium as the loader returns it (configuration K(2)L(8)3S(2)3P(6)4S(1)): orbitals,
  occupations and orbital energies. The basis tables do not enter the occupation
  numbers and are left empty here.
\<close>

definition potassium :: slater_atoms where
  "potassium =
     \<lparr>orbitals = [''1S'', ''2S'', ''3S'', ''4S'', ''2P'', ''3P''],
      orbitals_occupation = [2, 2, 2, 1, 6, 6],
      orbitals_exp = Map.empty,
      basis_numbers = Map.empty,
      orbitals_coeff = Map.empty,
      orbitals_energy = [- 1335330493 / 10000000, - 144899575 / 10000000,
                         - 17487797 / 10000000, - 1474751 / 10000000,
                         - 115192795 / 10000000, - 9544227 / 10000000]\<rparr>"

text \<open>Hydrogen: one 1S orbital made of one Slater function with exponent 1.\<close>

definition hydrogen :: slater_atoms where
  "hydrogen =
     \<lparr>orbitals = [''1S''],
      orbitals_occupation = [1],
      orbitals_exp = [''S'' \<mapsto> [1]],
      basis_numbers = [''S'' \<mapsto> [1]],
      orbitals_coeff = [''1S'' \<mapsto> [1]],
      orbitals_energy = [- 1 / 2]\<rparr>"

text \<open>
  The derivative in the words of the specification: 0 at a point below \<open>1e-10\<close> in
  absolute value, \<open>((n - 1) / r - zeta)\<close> times the Slater function elsewhere.
\<close>

definition spec_slater_derivative :: "real \<Rightarrow> int \<Rightarrow> real \<Rightarrow> real" where
  "spec_slater_derivative zeta n r =
     (if \<bar>r\<bar> < 1 / 10 ^ 10 then 0
      else ((of_int n - 1) / r - zeta) * spec_slater zeta n r)"

section \<open>The trapezoidal rule, the model density and the update\<close>

lemma spec_normalization_eq:
  assumes "0 \<le> z" shows "get_normalization_constant z = spec_normalization z"
proof (cases "z = 0")
  case True then show ?thesis by (simp add: get_normalization_constant_def spec_normalization_def)
next
  case False
  with assms have z: "0 < z" by simp
  have "(z / pi) powr (3/2) = z powr (3/2) / pi powr (3/2)"
    using z by (simp add: powr_divide)
  moreover have "pi powr (3/2) = pi * pi powr (1/2)"
    using powr_add[of pi 1 "1/2"] by simp
  ultimately show ?thesis
    by (simp add: get_normalization_constant_def spec_normalization_def)
qed

lemma np_tiny_pos: "0 < np_tiny"
  by (simp add: np_tiny_def)

lemma fl_sum_Some: "fl_sum (map Some xs) = Some (sum_list xs)"
  by (induction xs) (simp_all add: fl_sum_def fl_plus_def)

lemma fl_positive_Some:
  "list_all fl_positive (map Some c) \<longleftrightarrow> (\<forall>x\<in>set c. 0 < x)"
  by (induction c) (simp_all add: fl_positive_def)

lemma fl_positive_finite:
  "list_all fl_positive c \<Longrightarrow> \<exists>cr. c = map Some cr \<and> (\<forall>x\<in>set cr. 0 < x)"
proof (induction c)
  case Nil
  show ?case by simp
next
  case (Cons a c)
  then obtain cr where cr: "c = map Some cr" "\<forall>x\<in>set cr. 0 < x" by auto
  from Cons.prems obtain x where x: "a = Some x" "0 < x"
    by (cases a) (simp_all add: fl_positive_def)
  show ?case by (rule exI[of _ "x # cr"]) (simp add: cr x)
qed

lemma length_np_diff [simp]: "length (np_diff xs) = length xs - 1"
  by (induction xs rule: np_diff.induct) auto

lemma nth_np_diff: "Suc k < length xs \<Longrightarrow> np_diff xs ! k = xs ! Suc k - xs ! k"
proof (induction xs arbitrary: k rule: np_diff.induct)
  case (1 a b xs)
  then show ?case by (cases k) auto
qed auto

lemma length_ma_pair_sums [simp]: "length (ma_pair_sums ys) = length ys - 1"
  by (induction ys rule: ma_pair_sums.induct) auto

lemma nth_ma_pair_sums:
  "Suc k < length ys \<Longrightarrow> ma_pair_sums ys ! k = ma_add (ys ! Suc k) (ys ! k)"
proof (induction ys arbitrary: k rule: ma_pair_sums.induct)
  case (1 a b ys)
  then show ?case by (cases k) auto
qed auto

lemma length_pair_sums [simp]: "length (pair_sums ys) = length ys - 1"
  by (induction ys rule: pair_sums.induct) auto

lemma collect_results_Inr: "collect_results (map (\<lambda>i. Inr (f i)) is) = Inr (map f is)"
  by (induction "is") auto

lemma sum_list_map_zip_nth:
  "length xs = length ys \<Longrightarrow>
   sum_list (map (\<lambda>(a, b). f a b) (zip xs ys)) = (\<Sum>i<length xs. f (xs ! i) (ys ! i))"
proof -
  assume l: "length xs = length ys"
  have "sum_list (map (\<lambda>(a, b). f a b) (zip xs ys))
        = (\<Sum>i = 0..<length (zip xs ys). map (\<lambda>(a, b). f a b) (zip xs ys) ! i)"
    by (simp add: sum_list_sum_nth)
  also have "\<dots> = (\<Sum>i = 0..<length xs. f (xs ! i) (ys ! i))"
    using l by (intro sum.cong) auto
  finally show ?thesis by (simp add: atLeast0LessThan)
qed

text \<open>The masked trapezoidal rule of the source, by index.\<close>

lemma ma_trapz_index:
  assumes len: "length y = length x" and f: "\<And>j. j < length x \<Longrightarrow> y ! j = f j"
  shows "ma_trapz y x = Inr (spec_masked_trapezoid x f)"
proof -
  let ?n = "length x - 1"
  let ?v = "\<lambda>k. case spec_interval x f k of None \<Rightarrow> 0 | Some v \<Rightarrow> v"
  define terms where
    "terms = map (\<lambda>(d, s). map_option (\<lambda>v. d * v / 2) s) (zip (np_diff x) (ma_pair_sums y))"
  have lt: "length terms = ?n" using len by (simp add: terms_def)
  have nth: "terms ! k = spec_interval x f k" if "k < ?n" for k
  proof -
    have k: "Suc k < length x" "Suc k < length y" "k < length x" using that len by simp_all
    have d: "np_diff x ! k = x ! Suc k - x ! k" using k by (simp add: nth_np_diff)
    have p: "ma_pair_sums y ! k = ma_add (f (Suc k)) (f k)"
      using k f[of k] f[of "Suc k"] by (simp add: nth_ma_pair_sums)
    have "terms ! k = map_option (\<lambda>v. np_diff x ! k * v / 2) (ma_pair_sums y ! k)"
      using that len by (simp add: terms_def)
    also have "\<dots> = map_option (\<lambda>v. (x ! Suc k - x ! k) * v / 2) (ma_add (f (Suc k)) (f k))"
      by (simp only: d p)
    also have "\<dots> = spec_interval x f k"
      by (cases "f k"; cases "f (Suc k)") (simp_all add: spec_interval_def ma_add_def add.commute)
    finally show ?thesis .
  qed
  have terms: "terms = map (spec_interval x f) [0..<?n]"
  proof (rule nth_equalityI)
    show "length terms = length (map (spec_interval x f) [0..<?n])" using lt by simp
  next
    fix i assume "i < length terms"
    then have "i < ?n" using lt by simp
    then show "terms ! i = map (spec_interval x f) [0..<?n] ! i" using nth[of i] by simp
  qed
  have a: "list_all (\<lambda>t. t = None) terms
             \<longleftrightarrow> list_all (\<lambda>k. spec_interval x f k = None) [0..<?n]"
    unfolding terms by (simp add: list_all_iff)
  have s: "sum_list (map ma_filled0 terms) = (\<Sum>k<?n. ?v k)"
  proof -
    have "map ma_filled0 terms = map ?v [0..<?n]"
      unfolding terms by (simp add: ma_filled0_def)
    then have "sum_list (map ma_filled0 terms) = sum_list (map ?v [0..<?n])" by simp
    also have "\<dots> = (\<Sum>k<?n. ?v k)"
      by (simp add: sum_list_sum_nth atLeast0LessThan)
    finally show ?thesis .
  qed
  have bc: "np_broadcast (np_diff x) (ma_pair_sums y) = Inr (zip (np_diff x) (ma_pair_sums y))"
    using len by (simp add: np_broadcast_def)
  have mt: "ma_trapz y x =
              Inr (if list_all (\<lambda>t. t = None) terms then None
                   else Some (sum_list (map ma_filled0 terms)))"
    unfolding ma_trapz_def bc terms_def by (simp only: sum.case Let_def)
  show ?thesis
    unfolding mt spec_masked_trapezoid_def a s by (rule refl)
qed

lemma spec_masked_trapezoid_unmasked:
  assumes "2 \<le> length x" and "\<And>j. j < length x \<Longrightarrow> f j = Some (F j)"
  shows "spec_masked_trapezoid x f = Some (spec_trapezoid x F)"
proof -
  let ?n = "length x - 1"
  have iv: "spec_interval x f k = Some ((x ! (k + 1) - x ! k) * (F k + F (k + 1)) / 2)"
    if "k < ?n" for k
  proof -
    have "k < length x" "k + 1 < length x" using that by simp_all
    then have "f k = Some (F k)" "f (k + 1) = Some (F (k + 1))" using assms(2) by blast+
    then show ?thesis by (simp add: spec_interval_def)
  qed
  have n: "0 < ?n" using assms(1) by simp
  have na: "\<not> list_all (\<lambda>k. spec_interval x f k = None) [0..<?n]"
  proof
    assume "list_all (\<lambda>k. spec_interval x f k = None) [0..<?n]"
    then have "spec_interval x f 0 = None" using n by (simp add: list_all_iff)
    then show False using iv[of 0] n by simp
  qed
  have "(\<Sum>k<?n. case spec_interval x f k of None \<Rightarrow> 0 | Some v \<Rightarrow> v)
          = (\<Sum>k<?n. (x ! (k + 1) - x ! k) * (F k + F (k + 1)) / 2)"
    by (rule sum.cong) (simp_all add: iv)
  then show ?thesis
    using na by (simp only: spec_masked_trapezoid_def spec_trapezoid_def if_False)
qed

lemma spec_masked_trapezoid_short:
  "length x \<le> 1 \<Longrightarrow> spec_masked_trapezoid x f = None"
  by (simp add: spec_masked_trapezoid_def)

lemma spec_masked_trapezoid_nonneg:
  assumes "sorted x" and "\<And>j v. j < length x \<Longrightarrow> f j = Some v \<Longrightarrow> 0 \<le> v"
    and "spec_masked_trapezoid x f = Some s"
  shows "0 \<le> s"
proof -
  let ?n = "length x - 1"
  have "0 \<le> (case spec_interval x f k of None \<Rightarrow> 0 | Some v \<Rightarrow> v)" if "k < ?n" for k
  proof (cases "spec_interval x f k")
    case None
    then show ?thesis by simp
  next
    case (Some v)
    then obtain a b where ab: "f k = Some a" "f (k + 1) = Some b"
        and v: "v = (x ! (k + 1) - x ! k) * (a + b) / 2"
      by (auto simp: spec_interval_def split: option.splits)
    have k: "k < length x" "k + 1 < length x" using that by simp_all
    have "0 \<le> a" "0 \<le> b" using assms(2) k ab by blast+
    moreover have "x ! k \<le> x ! (k + 1)" using assms(1) k by (simp add: sorted_nth_mono)
    ultimately show ?thesis using Some v by simp
  qed
  then have "0 \<le> (\<Sum>k<?n. case spec_interval x f k of None \<Rightarrow> 0 | Some v \<Rightarrow> v)"
    by (intro sum_nonneg) simp
  moreover have "s = (\<Sum>k<?n. case spec_interval x f k of None \<Rightarrow> 0 | Some v \<Rightarrow> v)"
    using assms(3) by (simp add: spec_masked_trapezoid_def split: if_splits)
  ultimately show ?thesis by simp
qed

text \<open>The model density of finite coefficients.\<close>

lemma normalized_coeffs_Some:
  "map (\<lambda>(a, b). fl_times (Some (f a)) b) (zip xs (map Some ys))
     = map Some (map (\<lambda>(a, b). f a * b) (zip xs ys))"
  by (induction xs ys rule: list_induct2') (simp_all add: fl_times_def)

lemma normalized_gaussian_model_eq:
  assumes "length c = length z"
  shows "normalized_gaussian_model (map Some c) z g =
           Inr (map (\<lambda>r. Some (\<Sum>i<length c. exp (- (z ! i) * r ^ 2)
                                  * (get_normalization_constant (z ! i) * c ! i))) g)"
proof -
  define nc where "nc = map (\<lambda>(n, c). n * c) (zip (map get_normalization_constant z) c)"
  have bc: "np_broadcast (map get_normalization_constant z) (map Some c)
              = Inr (zip (map get_normalization_constant z) (map Some c))"
    using assms by (simp add: np_broadcast_def)
  have ncs: "map (\<lambda>(n, c). fl_times (Some n) c) (zip (map get_normalization_constant z) (map Some c))
               = map Some nc"
    unfolding nc_def using normalized_coeffs_Some[of "\<lambda>n. n"] by simp
  have len: "length nc = length z" using assms by (simp add: nc_def)
  have nth: "nc ! i = get_normalization_constant (z ! i) * c ! i" if "i < length z" for i
    using that assms by (simp add: nc_def)
  have row: "fl_sum (map (\<lambda>(z, nc). fl_times (Some (exp (- z * r ^ 2))) nc) (zip z (map Some nc)))
          = Some (\<Sum>i<length c. exp (- (z ! i) * r ^ 2) * (get_normalization_constant (z ! i) * c ! i))"
    for r
  proof -
    have "fl_sum (map (\<lambda>(z, nc). fl_times (Some (exp (- z * r ^ 2))) nc) (zip z (map Some nc)))
            = Some (sum_list (map (\<lambda>(z, nc). exp (- z * r ^ 2) * nc) (zip z nc)))"
      by (simp only: normalized_coeffs_Some[of "\<lambda>z. exp (- z * r ^ 2)"] fl_sum_Some)
    also have "sum_list (map (\<lambda>(z, nc). exp (- z * r ^ 2) * nc) (zip z nc))
            = (\<Sum>i<length z. exp (- (z ! i) * r ^ 2) * nc ! i)"
      using len by (simp add: sum_list_map_zip_nth)
    also have "\<dots> = (\<Sum>i<length z. exp (- (z ! i) * r ^ 2)
                                  * (get_normalization_constant (z ! i) * c ! i))"
      by (rule sum.cong) (simp_all add: nth)
    finally show ?thesis using assms by simp
  qed
  have l2: "length z = length (map Some nc)" using len by simp
  show ?thesis
    unfolding normalized_gaussian_model_def bc
    by (simp only: sum.case Let_def ncs l2[symmetric] if_True row) simp
qed

lemma spec_normalization_pos: "0 < z \<Longrightarrow> 0 < spec_normalization z"
  by (simp add: spec_normalization_def)

lemma spec_model_density_pos:
  assumes "\<forall>x\<in>set c. 0 < x" "\<forall>x\<in>set z. 0 < x" "length c = length z" "c \<noteq> []"
  shows "0 < spec_model_density c z r"
  unfolding spec_model_density_def
proof (rule sum_pos)
  show "finite {..<length c}" by simp
  show "{..<length c} \<noteq> {}" using assms(4) by (simp add: lessThan_empty_iff)
  fix i assume "i \<in> {..<length c}"
  then have "0 < c ! i" "0 < z ! i" using assms by simp_all
  then show "0 < c ! i * spec_normalization (z ! i) * exp (- (z ! i) * r ^ 2)"
    by (simp add: spec_normalization_pos)
qed

lemma normalized_gaussian_model_spec:
  assumes "length c = length z" "\<forall>x\<in>set z. 0 \<le> x"
  shows "normalized_gaussian_model (map Some c) z g
           = Inr (map (\<lambda>r. Some (spec_model_density c z r)) g)"
proof -
  have "(\<Sum>i<length c. exp (- (z ! i) * r ^ 2) * (get_normalization_constant (z ! i) * c ! i))
          = spec_model_density c z r" for r
    unfolding spec_model_density_def
  proof (rule sum.cong)
    fix i assume "i \<in> {..<length c}"
    then have "0 \<le> z ! i" using assms by simp
    then show "exp (- (z ! i) * r ^ 2) * (get_normalization_constant (z ! i) * c ! i)
                 = c ! i * spec_normalization (z ! i) * exp (- (z ! i) * r ^ 2)"
      by (simp add: spec_normalization_eq)
  qed simp
  then show ?thesis using assms(1) by (simp add: normalized_gaussian_model_eq)
qed

text \<open>The update, entry by entry.\<close>

lemma update_coefficients_body:
  fixes mv :: real and rho g c z :: "real list"
  assumes lrg: "length rho = length g"
  defines "ratio \<equiv> map (\<lambda>(d, g). ma_divide d g)
                       (zip rho (map (map_option (\<lambda>x. if x \<le> mv then mv else x))
                                     (map (\<lambda>r. Some (spec_model_density c z r)) g)))"
  shows "ma_trapz (map (\<lambda>(q, r). map_option (\<lambda>v. v * exp (- (z ! i) * r ^ 2) * r ^ 2) q)
                     (zip ratio g)) g
         = Inr (spec_masked_trapezoid g
                  (\<lambda>j. map_option (\<lambda>q. q * exp (- (z ! i) * (g ! j) ^ 2) * (g ! j) ^ 2)
                          (spec_ratio c z rho g mv j)))"
proof (rule ma_trapz_index)
  have lr: "length ratio = length g" using lrg by (simp add: ratio_def)
  show "length (map (\<lambda>(q, r). map_option (\<lambda>v. v * exp (- (z ! i) * r ^ 2) * r ^ 2) q)
                  (zip ratio g)) = length g"
    using lr by simp
  fix j assume j: "j < length g"
  have cl: "(if spec_model_density c z (g ! j) \<le> mv then mv else spec_model_density c z (g ! j))
              = max (spec_model_density c z (g ! j)) mv"
    by (simp add: max_def)
  have rj: "ratio ! j = spec_ratio c z rho g mv j"
    using j lrg by (simp add: ratio_def ma_divide_def spec_ratio_def cl)
  show "map (\<lambda>(q, r). map_option (\<lambda>v. v * exp (- (z ! i) * r ^ 2) * r ^ 2) q) (zip ratio g) ! j
          = map_option (\<lambda>q. q * exp (- (z ! i) * (g ! j) ^ 2) * (g ! j) ^ 2)
              (spec_ratio c z rho g mv j)"
    using j lr by (simp add: rj)
qed

lemma update_coefficients_masked_spec:
  assumes pc: "\<forall>x\<in>set c. 0 < x" and pz: "\<forall>x\<in>set z. 0 < x"
    and lcz: "length c = length z" and lrg: "length rho = length g"
  shows "update_coefficients (map Some c) z rho g mv
           = Inr (map (spec_masked_update c z rho g mv) [0..<length c])"
proof -
  have a1: "list_all fl_positive (map Some c)" using pc by (simp only: fl_positive_Some)
  have pz0: "\<forall>x\<in>set z. 0 \<le> x" using pz by (simp add: less_imp_le)
  have md: "normalized_gaussian_model (map Some c) z g
              = Inr (map (\<lambda>r. Some (spec_model_density c z r)) g)"
    using lcz pz0 by (rule normalized_gaussian_model_spec)
  let ?ratio = "map (\<lambda>(d, g). ma_divide d g)
                       (zip rho (map (map_option (\<lambda>x. if x \<le> mv then mv else x))
                                     (map (\<lambda>r. Some (spec_model_density c z r)) g)))"
  let ?body = "\<lambda>i. (case ma_trapz (map (\<lambda>(q, r). map_option
                                           (\<lambda>v. v * exp (- (z ! i) * r ^ 2) * r ^ 2) q)
                                        (zip ?ratio g)) g of
                          Inl e \<Rightarrow> Inl e
                        | Inr None \<Rightarrow> Inr None
                        | Inr (Some s) \<Rightarrow>
                            Inr (fl_times (fl_times (map Some c ! i)
                                             (Some (get_normalization_constant (z ! i))))
                                          (Some s)))"
  have body: "?body i = Inr (spec_masked_update c z rho g mv i)" if "i < length c" for i
  proof -
    have "0 \<le> z ! i" using that pz0 lcz by simp
    then have n: "get_normalization_constant (z ! i) = spec_normalization (z ! i)"
      by (rule spec_normalization_eq)
    have ci: "map Some c ! i = Some (c ! i)" using that by simp
    show ?thesis
      unfolding update_coefficients_body[OF lrg] ci n spec_masked_update_def
      by (simp add: fl_times_def split: option.splits)
  qed
  have "map ?body [0..<length c]
          = map (\<lambda>i. Inr (spec_masked_update c z rho g mv i)) [0..<length c]"
  proof (rule map_cong)
    fix i assume "i \<in> set [0..<length c]"
    then have "i < length c" by simp
    then show "?body i = Inr (spec_masked_update c z rho g mv i)" by (rule body)
  qed (rule refl)
  then have "collect_results (map ?body [0..<length c])
          = Inr (map (spec_masked_update c z rho g mv) [0..<length c])"
    by (simp only: collect_results_Inr)
  then show ?thesis
    unfolding update_coefficients_def md using a1 lcz lrg
    by (simp only: if_True if_False not_True_eq_False sum.case Let_def length_map refl)
qed

lemma spec_ratio_unmasked:
  assumes "\<bar>rho ! j\<bar> * np_tiny < mv"
  shows "spec_ratio c z rho g mv j = Some (rho ! j / max (spec_model_density c z (g ! j)) mv)"
proof -
  have "0 \<le> \<bar>rho ! j\<bar> * np_tiny" using np_tiny_pos by simp
  then have "0 < mv" using assms by linarith
  then have "mv \<le> \<bar>max (spec_model_density c z (g ! j)) mv\<bar>" by (simp add: max_def)
  then show ?thesis using assms by (simp add: spec_ratio_def)
qed

lemma spec_masked_update_regular:
  assumes two: "2 \<le> length g" and lrg: "length rho = length g"
    and tol: "\<forall>d\<in>set rho. \<bar>d\<bar> * np_tiny < mv"
  shows "spec_masked_update c z rho g mv i = Some (spec_coefficient_update c z rho g mv i)"
proof -
  have "spec_masked_trapezoid g
          (\<lambda>j. map_option (\<lambda>q. q * exp (- (z ! i) * (g ! j) ^ 2) * (g ! j) ^ 2)
                  (spec_ratio c z rho g mv j))
        = Some (spec_trapezoid g
                  (\<lambda>j. rho ! j / max (spec_model_density c z (g ! j)) mv
                         * exp (- (z ! i) * (g ! j) ^ 2) * (g ! j) ^ 2))"
  proof (rule spec_masked_trapezoid_unmasked[OF two])
    fix j assume "j < length g"
    then have "rho ! j \<in> set rho" using lrg by simp
    then have "\<bar>rho ! j\<bar> * np_tiny < mv" using tol by blast
    then show "map_option (\<lambda>q. q * exp (- (z ! i) * (g ! j) ^ 2) * (g ! j) ^ 2)
                 (spec_ratio c z rho g mv j)
               = Some (rho ! j / max (spec_model_density c z (g ! j)) mv
                         * exp (- (z ! i) * (g ! j) ^ 2) * (g ! j) ^ 2)"
      by (simp add: spec_ratio_unmasked)
  qed
  then show ?thesis by (simp add: spec_masked_update_def spec_coefficient_update_def)
qed

lemma update_coefficients_spec:
  assumes pc: "\<forall>x\<in>set c. 0 < x" and pz: "\<forall>x\<in>set z. 0 < x"
    and lcz: "length c = length z" and lrg: "length rho = length g"
    and two: "2 \<le> length g" and tol: "\<forall>d\<in>set rho. \<bar>d\<bar> * np_tiny < mv"
  shows "update_coefficients (map Some c) z rho g mv
           = Inr (map (\<lambda>i. Some (spec_coefficient_update c z rho g mv i)) [0..<length c])"
  unfolding update_coefficients_masked_spec[OF pc pz lcz lrg]
  by (simp add: spec_masked_update_regular[OF two lrg tol])

lemma collect_results_total:
  "(\<And>r. r \<in> set rs \<Longrightarrow> \<exists>v. r = Inr v) \<Longrightarrow>
   \<exists>vs. collect_results rs = Inr vs \<and> length vs = length rs"
proof (induction rs)
  case Nil
  then show ?case by simp
next
  case (Cons r rs)
  obtain v where v: "r = Inr v" using Cons.prems[of r] by auto
  obtain vs where vs: "collect_results rs = Inr vs" "length vs = length rs"
    using Cons.IH Cons.prems by auto
  show ?case by (simp add: v vs)
qed

lemma ma_trapz_total: "length y = length x \<Longrightarrow> \<exists>m. ma_trapz y x = Inr m"
  by (simp add: ma_trapz_def np_broadcast_def Let_def)

lemma normalized_gaussian_model_total:
  "length c = length z \<Longrightarrow>
   \<exists>gm. normalized_gaussian_model c z g = Inr gm \<and> length gm = length g"
  by (simp add: normalized_gaussian_model_def np_broadcast_def Let_def)

lemma update_coefficients_assert:
  "\<not> list_all fl_positive c \<or> length c \<noteq> length z \<or> length rho \<noteq> length g \<Longrightarrow>
   update_coefficients c z rho g mv = Inl AssertionError"
  by (auto simp: update_coefficients_def)

lemma update_coefficients_total:
  assumes "list_all fl_positive c" "length c = length z" "length rho = length g"
  shows "\<exists>new. update_coefficients c z rho g mv = Inr new \<and> length new = length c"
proof -
  obtain gd where gd: "normalized_gaussian_model c z g = Inr gd" "length gd = length g"
    using normalized_gaussian_model_total[OF assms(2), of g] by blast
  let ?ratio = "map (\<lambda>(d, g). ma_divide d g)
                    (zip rho (map (map_option (\<lambda>g. if g \<le> mv then mv else g)) gd))"
  let ?body = "\<lambda>i. (case ma_trapz (map (\<lambda>(q, r). map_option
                                           (\<lambda>v. v * exp (- (z ! i) * r ^ 2) * r ^ 2) q)
                                        (zip ?ratio g)) g of
                          Inl e \<Rightarrow> Inl e
                        | Inr None \<Rightarrow> Inr None
                        | Inr (Some s) \<Rightarrow>
                            Inr (fl_times (fl_times (c ! i)
                                             (Some (get_normalization_constant (z ! i))))
                                          (Some s)))"
  have "\<exists>v. r = Inr v" if "r \<in> set (map ?body [0..<length c])" for r
  proof -
    have "r \<in> ?body ` set [0..<length c]" using that by (simp only: set_map)
    then obtain i where r: "r = ?body i" by (elim imageE)
    have "length (map (\<lambda>(q, r). map_option (\<lambda>v. v * exp (- (z ! i) * r ^ 2) * r ^ 2) q)
                      (zip ?ratio g)) = length g"
      using assms(3) gd(2) by simp
    then obtain m where "ma_trapz (map (\<lambda>(q, r). map_option
                            (\<lambda>v. v * exp (- (z ! i) * r ^ 2) * r ^ 2) q) (zip ?ratio g)) g = Inr m"
      using ma_trapz_total by blast
    then show ?thesis unfolding r by (cases m) simp_all
  qed
  then obtain vs where "collect_results (map ?body [0..<length c]) = Inr vs"
      "length vs = length (map ?body [0..<length c])"
    using collect_results_total by blast
  then show ?thesis
    unfolding update_coefficients_def gd(1) using assms
    by (simp only: if_True if_False not_True_eq_False sum.case Let_def length_map length_upt) simp
qed

lemma update_coefficients_Inr_asserts:
  assumes "update_coefficients c z rho g mv = Inr new"
  shows "list_all fl_positive c \<and> length c = length z \<and> length rho = length g
       \<and> length new = length c"
proof -
  have a: "\<not> (\<not> list_all fl_positive c \<or> length c \<noteq> length z \<or> length rho \<noteq> length g)"
    using update_coefficients_assert[of c z rho g mv] assms by auto
  then have "\<exists>new. update_coefficients c z rho g mv = Inr new \<and> length new = length c"
    using update_coefficients_total[of c z rho g mv] by simp
  then show ?thesis using a assms by auto
qed

lemma update_coefficients_Inl:
  assumes "update_coefficients c z rho g mv = Inl e"
  shows "e = AssertionError
       \<and> (\<not> list_all fl_positive c \<or> length c \<noteq> length z \<or> length rho \<noteq> length g)"
proof (cases "\<not> list_all fl_positive c \<or> length c \<noteq> length z \<or> length rho \<noteq> length g")
  case True
  then show ?thesis using update_coefficients_assert[OF True, of mv] assms by simp
next
  case False
  then show ?thesis using update_coefficients_total[of c z rho g mv] assms by auto
qed

lemma spec_coefficient_update_nonneg:
  assumes pc: "\<forall>x\<in>set c. 0 < x" and pz: "\<forall>x\<in>set z. 0 < x"
    and lcz: "length c = length z" and lrg: "length rho = length g"
    and pr: "\<forall>d\<in>set rho. 0 \<le> d" and sg: "sorted g" and i: "i < length c"
  shows "0 \<le> spec_coefficient_update c z rho g mv i"
proof -
  have ne: "c \<noteq> []" using i by auto
  let ?F = "\<lambda>j. rho ! j / max (spec_model_density c z (g ! j)) mv
                  * exp (- (z ! i) * (g ! j) ^ 2) * (g ! j) ^ 2"
  have F: "0 \<le> ?F j" if "j < length g" for j
  proof -
    have "0 \<le> rho ! j" using that lrg pr by simp
    moreover have "0 < max (spec_model_density c z (g ! j)) mv"
      using spec_model_density_pos[OF pc pz lcz ne, of "g ! j"] by (simp add: less_max_iff_disj)
    ultimately show ?thesis by simp
  qed
  have "0 \<le> spec_trapezoid g ?F"
    unfolding spec_trapezoid_def
  proof (rule sum_nonneg)
    fix k assume "k \<in> {..<length g - 1}"
    then have k: "k + 1 < length g" by auto
    then have "g ! k \<le> g ! (k + 1)" using sg by (simp add: sorted_nth_mono)
    moreover have "0 \<le> ?F k" "0 \<le> ?F (k + 1)" using k F by simp_all
    ultimately show "0 \<le> (g ! (k + 1) - g ! k) * (?F k + ?F (k + 1)) / 2" by simp
  qed
  moreover have "0 < c ! i" using pc i by simp
  moreover have "0 < spec_normalization (z ! i)"
    using pz i lcz by (simp add: spec_normalization_pos)
  ultimately show ?thesis by (simp add: spec_coefficient_update_def)
qed

lemma spec_masked_update_nonneg:
  assumes pc: "\<forall>x\<in>set c. 0 < x" and pz: "\<forall>x\<in>set z. 0 < x"
    and lcz: "length c = length z" and lrg: "length rho = length g"
    and pr: "\<forall>d\<in>set rho. 0 \<le> d" and sg: "sorted g" and i: "i < length c"
    and v: "spec_masked_update c z rho g mv i = Some v"
  shows "0 \<le> v"
proof -
  have ne: "c \<noteq> []" using i by auto
  let ?f = "\<lambda>j. map_option (\<lambda>q. q * exp (- (z ! i) * (g ! j) ^ 2) * (g ! j) ^ 2)
                  (spec_ratio c z rho g mv j)"
  from v obtain s where s: "spec_masked_trapezoid g ?f = Some s"
      and vs: "v = c ! i * spec_normalization (z ! i) * s"
    by (auto simp: spec_masked_update_def)
  have "0 \<le> w" if "j < length g" "?f j = Some w" for j w
  proof -
    from that(2) obtain q where q: "spec_ratio c z rho g mv j = Some q"
        and w: "w = q * exp (- (z ! i) * (g ! j) ^ 2) * (g ! j) ^ 2"
      by auto
    have "q = rho ! j / max (spec_model_density c z (g ! j)) mv"
      using q by (simp add: spec_ratio_def split: if_splits)
    moreover have "0 \<le> rho ! j" using that(1) lrg pr by simp
    moreover have "0 < max (spec_model_density c z (g ! j)) mv"
      using spec_model_density_pos[OF pc pz lcz ne, of "g ! j"] by (simp add: less_max_iff_disj)
    ultimately have "0 \<le> q" by simp
    then show ?thesis unfolding w by simp
  qed
  then have "0 \<le> s" using spec_masked_trapezoid_nonneg[OF sg _ s] by blast
  moreover have "0 < c ! i" using pc i by simp
  moreover have "0 < spec_normalization (z ! i)"
    using pz i lcz by (simp add: spec_normalization_pos)
  ultimately show ?thesis unfolding vs by simp
qed

section \<open>The iteration and the loop\<close>

lemma np_broadcast_same: "length xs = length ys \<Longrightarrow> np_broadcast xs ys = Inr (zip xs ys)"
  by (simp add: np_broadcast_def)

lemma np_trapz_total: "length y = length x \<Longrightarrow> \<exists>v. np_trapz y x = Inr v"
  by (simp add: np_trapz_def np_broadcast_def)

lemma integrate_error_total:
  assumes "length c = length z" "length rho = length g"
  shows "\<exists>v. integrate_error c z rho g = Inr v"
proof -
  obtain gm where gm: "normalized_gaussian_model c z g = Inr gm" "length gm = length g"
    using normalized_gaussian_model_total[OF assms(1)] by blast
  let ?a = "map (\<lambda>(m, d). map_option (\<lambda>v. \<bar>v - d\<bar>) m) (zip gm rho)"
  have b1: "np_broadcast gm rho = Inr (zip gm rho)"
    using gm(2) assms(2) by (simp add: np_broadcast_def)
  have b2: "np_broadcast (map (\<lambda>r. r ^ 2) g) ?a = Inr (zip (map (\<lambda>r. r ^ 2) g) ?a)"
    using gm(2) assms(2) by (simp add: np_broadcast_def)
  have "length (map (\<lambda>(r2, a). map_option (\<lambda>v. r2 * v) a) (zip (map (\<lambda>r. r ^ 2) g) ?a))
          = length g"
    using gm(2) assms(2) by simp
  then obtain v where "np_trapz (map (\<lambda>(r2, a). map_option (\<lambda>v. r2 * v) a)
                                   (zip (map (\<lambda>r. r ^ 2) g) ?a)) g = Inr v"
    using np_trapz_total by blast
  then show ?thesis
    by (simp add: integrate_error_def gm(1) b1 b2)
qed

lemma integrate_normalized_model_total:
  assumes "length c = length z"
  shows "\<exists>v. integrate_normalized_model c z rho g = Inr v"
proof -
  obtain gm where gm: "normalized_gaussian_model c z g = Inr gm" "length gm = length g"
    using normalized_gaussian_model_total[OF assms(1)] by blast
  have "length (map (\<lambda>(r, m). map_option (\<lambda>v. r ^ 2 * v) m) (zip g gm)) = length g"
    using gm(2) by simp
  then obtain v where "np_trapz (map (\<lambda>(r, m). map_option (\<lambda>v. r ^ 2 * v) m) (zip g gm)) g
                         = Inr v"
    using np_trapz_total by blast
  then show ?thesis
    by (simp add: integrate_normalized_model_def gm(1))
qed

lemma KL_objective_function_total:
  assumes "length c = length z" "length rho = length g"
  shows "\<exists>v. KL_objective_function c z rho g = Inr v"
proof -
  obtain gm where gm: "normalized_gaussian_model c z g = Inr gm" "length gm = length g"
    using normalized_gaussian_model_total[OF assms(1)] by blast
  show ?thesis
    using gm(2) assms(2)
    by (simp add: KL_objective_function_def gm(1) np_broadcast_same Let_def ma_trapz_total)
qed

lemma mbis_iteration_Inr:
  assumes "mbis_iteration rho g mv st = Inr st'"
  shows "\<exists>new e m ob.
           update_coefficients (old_coefficients st) (exponents st) rho g mv = Inr new
         \<and> integrate_error new (exponents st) rho g = Inr e
         \<and> integrate_normalized_model new (exponents st) rho g = Inr m
         \<and> KL_objective_function new (exponents st) rho g = Inr ob
         \<and> st' = st\<lparr>old_coefficients := new_coefficients st,
                     new_coefficients := new,
                     counter := counter st + 1,
                     error_array := append_at 2 ob (append_at 1 m
                                      (append_at 0 e (error_array st)))\<rparr>"
  using assms unfolding mbis_iteration_def Let_def
  by (auto split: sum.splits)

lemma mbis_iteration_total:
  assumes "update_coefficients (old_coefficients st) (exponents st) rho g mv = Inr new"
  shows "\<exists>st'. mbis_iteration rho g mv st = Inr st'"
proof -
  have l: "length (old_coefficients st) = length (exponents st)" "length rho = length g"
      "length new = length (old_coefficients st)"
    using update_coefficients_Inr_asserts[OF assms] by simp_all
  then have ln: "length new = length (exponents st)" by simp
  obtain gm where gm: "normalized_gaussian_model new (exponents st) g = Inr gm"
    using normalized_gaussian_model_total[OF ln] by blast
  obtain e where e: "integrate_error new (exponents st) rho g = Inr e"
    using integrate_error_total[OF ln l(2)] by blast
  obtain m where m: "integrate_normalized_model new (exponents st) rho g = Inr m"
    using integrate_normalized_model_total[OF ln] by blast
  obtain ob where ob: "KL_objective_function new (exponents st) rho g = Inr ob"
    using KL_objective_function_total[OF ln l(2)] by blast
  show ?thesis
    by (simp add: mbis_iteration_def Let_def assms gm e m ob)
qed

lemma mbis_iteration_Inl:
  assumes "mbis_iteration rho g mv st = Inl err"
  shows "err = AssertionError
       \<and> update_coefficients (old_coefficients st) (exponents st) rho g mv = Inl AssertionError"
proof (cases "update_coefficients (old_coefficients st) (exponents st) rho g mv")
  case (Inl e)
  have "e = AssertionError" using update_coefficients_Inl[OF Inl] by simp
  then show ?thesis using assms Inl by (simp add: mbis_iteration_def Let_def)
next
  case (Inr new)
  then show ?thesis using mbis_iteration_total[OF Inr] assms by auto
qed

lemma mbis_loop_snoc:
  "mbis_loop (Suc n) rho g mv st =
     (case mbis_loop n rho g mv st of
        Inl e \<Rightarrow> Inl e
      | Inr st' \<Rightarrow> mbis_iteration rho g mv st')"
proof (induction n arbitrary: st)
  case 0
  show ?case by (simp split: sum.splits)
next
  case (Suc n)
  show ?case
  proof (cases "mbis_iteration rho g mv st")
    case (Inl e)
    then show ?thesis by simp
  next
    case (Inr s1)
    have "mbis_loop (Suc (Suc n)) rho g mv st = mbis_loop (Suc n) rho g mv s1"
      using Inr by simp
    also have "\<dots> = (case mbis_loop n rho g mv s1 of
                          Inl e \<Rightarrow> Inl e | Inr st' \<Rightarrow> mbis_iteration rho g mv st')"
      by (rule Suc.IH)
    also have "mbis_loop n rho g mv s1 = mbis_loop (Suc n) rho g mv st"
      using Inr by simp
    finally show ?thesis .
  qed
qed

lemma mbis_loop_prefix:
  "mbis_loop (Suc n) rho g mv st = Inr st' \<Longrightarrow>
   \<exists>s. mbis_loop n rho g mv st = Inr s \<and> mbis_iteration rho g mv s = Inr st'"
  by (simp only: mbis_loop_snoc split: sum.splits) auto

lemma mbis_loop_history:
  "mbis_loop n rho g mv (mbis_initial_state c z) = Inr st \<Longrightarrow> history_after n c z rho g mv st"
proof (induction n arbitrary: st)
  case 0
  then show ?case by (auto simp: history_after_def mbis_initial_state_def)
next
  case (Suc n)
  obtain s where s: "mbis_loop n rho g mv (mbis_initial_state c z) = Inr s"
      and it: "mbis_iteration rho g mv s = Inr st"
    using mbis_loop_prefix[OF Suc.prems] by blast
  have h: "history_after n c z rho g mv s" using Suc.IH[OF s] .
  then obtain errs masses objs where
      ea: "error_array s = [errs, masses, objs, [], [], []]"
      and len: "length errs = n" "length masses = n" "length objs = n"
      and old: "\<forall>j<n. \<exists>s.
             mbis_loop (Suc j) rho g mv (mbis_initial_state c z) = Inr s
           \<and> integrate_error (new_coefficients s) z rho g = Inr (errs ! j)
           \<and> integrate_normalized_model (new_coefficients s) z rho g = Inr (masses ! j)
           \<and> KL_objective_function (new_coefficients s) z rho g = Inr (objs ! j)"
      and cz: "counter s = n" "exponents s = z"
    unfolding history_after_def by blast
  obtain new e m ob where
      e: "integrate_error new z rho g = Inr e"
      and m: "integrate_normalized_model new z rho g = Inr m"
      and ob: "KL_objective_function new z rho g = Inr ob"
      and st: "st = s\<lparr>old_coefficients := new_coefficients s,
                     new_coefficients := new,
                     counter := counter s + 1,
                     error_array := append_at 2 ob (append_at 1 m
                                      (append_at 0 e (error_array s)))\<rparr>"
    using mbis_iteration_Inr[OF it] cz(2) by auto
  have ea': "error_array st = [errs @ [e], masses @ [m], objs @ [ob], [], [], []]"
    by (simp add: st ea append_at_def)
  have new: "new_coefficients st = new" by (simp add: st)
  have "\<exists>s'.
             mbis_loop (Suc j) rho g mv (mbis_initial_state c z) = Inr s'
           \<and> integrate_error (new_coefficients s') z rho g = Inr ((errs @ [e]) ! j)
           \<and> integrate_normalized_model (new_coefficients s') z rho g
                = Inr ((masses @ [m]) ! j)
           \<and> KL_objective_function (new_coefficients s') z rho g = Inr ((objs @ [ob]) ! j)"
    if "j < Suc n" for j
  proof (cases "j < n")
    case True
    then show ?thesis using old len by (simp add: nth_append)
  next
    case False
    then have j: "j = n" using that by simp
    show ?thesis
      unfolding j using Suc.prems e m ob new len by (simp add: nth_append)
  qed
  then show ?case
    unfolding history_after_def using ea' len cz by (simp add: st)
qed

text \<open>
  The run of the loop: after every number of iterations up to the last there is a state,
  and each iteration is one call of the update on the old coefficients.
\<close>

lemma mbis_loop_states:
  "mbis_loop n rho g mv st0 = Inr st \<Longrightarrow> j \<le> n \<Longrightarrow> \<exists>s. mbis_loop j rho g mv st0 = Inr s"
proof (induction n arbitrary: st)
  case 0
  then show ?case by simp
next
  case (Suc n)
  show ?case
  proof (cases "j = Suc n")
    case True
    then show ?thesis using Suc.prems(1) by blast
  next
    case False
    then have j: "j \<le> n" using Suc.prems(2) by simp
    obtain s where "mbis_loop n rho g mv st0 = Inr s"
      using mbis_loop_prefix[OF Suc.prems(1)] by blast
    then show ?thesis using Suc.IH j by blast
  qed
qed

lemma mbis_loop_trace:
  assumes "mbis_loop n rho g mv (mbis_initial_state c z) = Inr st" and "j < n"
  shows "\<exists>s s'. mbis_loop j rho g mv (mbis_initial_state c z) = Inr s
             \<and> mbis_loop (Suc j) rho g mv (mbis_initial_state c z) = Inr s'
             \<and> update_coefficients (old_coefficients s) z rho g mv
                 = Inr (new_coefficients s')
             \<and> old_coefficients s' = new_coefficients s
             \<and> exponents s' = z
             \<and> counter s' = Suc j"
proof -
  obtain s' where s': "mbis_loop (Suc j) rho g mv (mbis_initial_state c z) = Inr s'"
    using mbis_loop_states[OF assms(1), of "Suc j"] assms(2) by auto
  obtain s where s: "mbis_loop j rho g mv (mbis_initial_state c z) = Inr s"
      and it: "mbis_iteration rho g mv s = Inr s'"
    using mbis_loop_prefix[OF s'] by blast
  have h: "exponents s = z" "counter s = j"
    using mbis_loop_history[OF s] by (simp_all add: history_after_def)
  from mbis_iteration_Inr[OF it] h show ?thesis using s s' by auto
qed

lemma mbis_loop_Inl:
  "mbis_loop n rho g mv (mbis_initial_state c z) = Inl err \<Longrightarrow>
   err = AssertionError
   \<and> (\<exists>j<n. \<exists>s. mbis_loop j rho g mv (mbis_initial_state c z) = Inr s
          \<and> update_coefficients (old_coefficients s) z rho g mv = Inl AssertionError)"
proof (induction n)
  case 0
  then show ?case by simp
next
  case (Suc n)
  show ?case
  proof (cases "mbis_loop n rho g mv (mbis_initial_state c z)")
    case (Inl e)
    have "mbis_loop (Suc n) rho g mv (mbis_initial_state c z) = Inl e"
      by (simp only: mbis_loop_snoc Inl sum.case)
    then have "e = err" using Suc.prems by (simp only: sum.inject)
    then show ?thesis using Suc.IH Inl less_Suc_eq by auto
  next
    case (Inr s)
    have "mbis_loop (Suc n) rho g mv (mbis_initial_state c z) = mbis_iteration rho g mv s"
      by (simp only: mbis_loop_snoc Inr sum.case)
    then have it: "mbis_iteration rho g mv s = Inl err"
      using Suc.prems by (simp only:)
    have "exponents s = z" using mbis_loop_history[OF Inr] by (simp add: history_after_def)
    then show ?thesis using mbis_iteration_Inl[OF it] Inr by auto
  qed
qed

lemma fixed_iteration_returns_once:
  assumes "list_all fl_positive c" "length c = length z" "length rho = length g"
    and "coeffs G = Some gc" "exps G = Some ge"
  shows "\<exists>h. fixed_iteration_MBIS_method G c z rho g 1 mv = Inr ((gc, ge), h)"
proof -
  obtain new where "update_coefficients c z rho g mv = Inr new"
    using update_coefficients_total[OF assms(1-3)] by blast
  then have "update_coefficients (old_coefficients (mbis_initial_state c z))
               (exponents (mbis_initial_state c z)) rho g mv = Inr new"
    by (simp add: mbis_initial_state_def)
  then obtain st where "mbis_iteration rho g mv (mbis_initial_state c z) = Inr st"
    using mbis_iteration_total by blast
  then show ?thesis
    by (simp add: fixed_iteration_MBIS_method_def assms(4,5))
qed

lemma fixed_iteration_Inr:
  assumes "fixed_iteration_MBIS_method G c z rho g k mv = Inr (p, h)"
  shows "\<exists>st. mbis_loop (nat k) rho g mv (mbis_initial_state c z) = Inr st
            \<and> error_array st = h"
  using assms unfolding fixed_iteration_MBIS_method_def
  by (auto split: sum.splits option.splits)

lemma fixed_iteration_Inl:
  assumes "fixed_iteration_MBIS_method G c z rho g k mv = Inl e"
  shows "(\<exists>err. mbis_loop (nat k) rho g mv (mbis_initial_state c z) = Inl err \<and> e = err)
       \<or> ((\<exists>st. mbis_loop (nat k) rho g mv (mbis_initial_state c z) = Inr st)
            \<and> e = NameError \<and> (coeffs G = None \<or> exps G = None))"
  using assms unfolding fixed_iteration_MBIS_method_def
  by (auto split: sum.splits option.splits)

section \<open>Evaluation at sample inputs\<close>

lemma normalization_one: "get_normalization_constant 1 = 4 / sqrt pi"
  by (simp add: get_normalization_constant_def powr_half_sqrt)

lemma sqrt_pi_bounds: "1 \<le> sqrt pi" "sqrt pi \<le> 2"
proof -
  have "1 \<le> pi" using pi_ge_two by linarith
  then show "1 \<le> sqrt pi" by simp
  have "sqrt pi \<le> sqrt 4" using pi_less_4 by (intro real_sqrt_le_mono) simp
  then show "sqrt pi \<le> 2" by simp
qed

lemma normalization_one_bounds:
  "2 \<le> get_normalization_constant 1" "get_normalization_constant 1 \<le> 4"
proof -
  have p: "0 < sqrt pi" using sqrt_pi_bounds(1) by linarith
  show "2 \<le> get_normalization_constant 1"
    unfolding normalization_one using sqrt_pi_bounds(2) p by (simp add: le_divide_eq)
  show "get_normalization_constant 1 \<le> 4"
    unfolding normalization_one using sqrt_pi_bounds(1) p by (simp add: divide_le_eq)
qed

lemma exp_nine_bounds: "512 \<le> exp (9::real)" "exp (9::real) \<le> 19683"
proof -
  have e: "exp (9::real) = exp 1 ^ 9"
    using exp_of_nat_mult[of 9 "1::real"] by simp
  have "(2::real) \<le> exp 1" using exp_ge_add_one_self[of "1::real"] by simp
  then have "(2::real) ^ 9 \<le> exp 1 ^ 9" by (rule power_mono) simp
  then show "512 \<le> exp (9::real)" unfolding e by simp
  have "exp (1::real) ^ 9 \<le> 3 ^ 9" using exp_le by (rule power_mono) simp
  then show "exp (9::real) \<le> 19683" unfolding e by simp
qed

lemma exp_minus_nine_bounds: "1 / 19683 \<le> exp (- 9 :: real)" "exp (- 9 :: real) \<le> 1 / 512"
proof -
  have e: "exp (- 9 :: real) = 1 / exp 9" by (simp add: exp_minus inverse_eq_divide)
  have p: "0 < exp (9::real)" by simp
  show "1 / 19683 \<le> exp (- 9 :: real)"
    unfolding e using exp_nine_bounds(2) p by (simp add: field_simps)
  show "exp (- 9 :: real) \<le> 1 / 512"
    unfolding e using exp_nine_bounds(1) p by (simp add: field_simps)
qed

lemma model_at_three_bounds:
  "1 / 1000000 < get_normalization_constant 1 * exp (- 9)"
  "27 * (get_normalization_constant 1 * exp (- 9)) < 1"
proof -
  let ?N = "get_normalization_constant 1" and ?E = "exp (- 9 :: real)"
  have "2 * (1 / 19683) \<le> ?N * ?E"
    using normalization_one_bounds(1) exp_minus_nine_bounds(1) by (intro mult_mono) simp_all
  then show "1 / 1000000 < ?N * ?E" by simp
  have "?N * ?E \<le> 4 * (1 / 512)"
    using normalization_one_bounds exp_minus_nine_bounds(2) by (intro mult_mono) simp_all
  then show "27 * (?N * ?E) < 1" by simp
qed

lemma np_tiny_le: "np_tiny \<le> 1 / 2 ^ 40"
proof -
  have "(2::real) ^ 40 \<le> 2 ^ 1022" by (rule power_increasing) simp_all
  moreover have "(0::real) < 2 ^ 40" by (rule zero_less_power) simp
  ultimately have "(1::real) / 2 ^ 1022 \<le> 1 / 2 ^ 40" by (intro frac_le) simp_all
  then show ?thesis by (simp only: np_tiny_def)
qed

lemma np_tiny_times:
  assumes "\<bar>d\<bar> \<le> 1000"
  shows "\<bar>d\<bar> * np_tiny < 1 / 1000000000"
proof -
  have "\<bar>d\<bar> * np_tiny \<le> 1000 * (1 / 2 ^ 40)"
    using assms np_tiny_le np_tiny_pos by (intro mult_mono) simp_all
  then show ?thesis by simp
qed

lemma spec_update_at_example:
  "spec_coefficient_update [1] [1] [0, 2] [0, 3] (1 / 1000000) 0 = 27"
proof -
  let ?N = "get_normalization_constant 1" and ?E = "exp (- 9 :: real)"
  have sn: "spec_normalization 1 = ?N" using spec_normalization_eq[of 1] by simp
  have mx: "max (?N * ?E) (1 / 1000000) = ?N * ?E"
    using model_at_three_bounds(1) by (simp add: max_def)
  have nz: "?N * ?E \<noteq> 0" using model_at_three_bounds(1) by auto
  have "spec_coefficient_update [1] [1] [0, 2] [0, 3] (1 / 1000000) 0
          = ?N * (27 * ?E) / max (?N * ?E) (1 / 1000000)"
    by (simp add: spec_coefficient_update_def spec_trapezoid_def spec_model_density_def sn)
  also have "\<dots> = 27 * (?N * ?E) / (?N * ?E)" unfolding mx by (simp add: mult_ac)
  also have "\<dots> = 27" using nz by simp
  finally show ?thesis .
qed

lemma tolerance_at_examples:
  "\<forall>d\<in>set [0, 2::real]. \<bar>d\<bar> * np_tiny < 1 / 1000000"
  "\<forall>d\<in>set [1, 1::real]. \<bar>d\<bar> * np_tiny < 1 / 1000000"
  "\<forall>d\<in>set [0, 0::real]. \<bar>d\<bar> * np_tiny < 1 / 1000000"
  using np_tiny_times[of 0] np_tiny_times[of 1] np_tiny_times[of 2] by simp_all

lemma update_at_example:
  "update_coefficients [Some 1] [1] [0, 2] [0, 3] (1 / 1000000) = Inr [Some 27]"
  using update_coefficients_spec[of "[1]" "[1]" "[0, 2]" "[0, 3]" "1 / 1000000",
      OF _ _ _ _ _ tolerance_at_examples(1)]
  by (simp add: spec_update_at_example)

lemma integrate_error_at_example:
  "integrate_error [Some 27] [1] [0, 2] [0, 3]
     = Inr (Some (27 * \<bar>exp (- 9) * (get_normalization_constant 1 * 27) - 2\<bar> / 2))"
  by (simp add: integrate_error_def normalized_gaussian_model_def np_broadcast_def np_trapz_def
      fl_sum_def fl_plus_def fl_times_def)

lemma integrate_model_at_example:
  "integrate_normalized_model [Some 27] [1] [0, 2] [0, 3]
     = Inr (Some (729 * (exp (- 9) * get_normalization_constant 1) / 2))"
  by (simp add: integrate_normalized_model_def normalized_gaussian_model_def np_broadcast_def
      np_trapz_def fl_sum_def fl_plus_def fl_times_def)

lemma error_differs_from_mass_at_example:
  "27 * \<bar>exp (- 9) * (get_normalization_constant 1 * 27) - 2\<bar> / 2
     \<noteq> 729 * (exp (- 9) * get_normalization_constant 1) / 2"
proof -
  let ?x = "27 * (get_normalization_constant 1 * exp (- 9))"
  have x: "?x < 1" by (rule model_at_three_bounds(2))
  have a: "exp (- 9) * (get_normalization_constant 1 * 27) = ?x" by simp
  have b: "729 * (exp (- 9) * get_normalization_constant 1) = 27 * ?x" by simp
  have "\<bar>?x - 2\<bar> \<noteq> ?x" using x by linarith
  then show ?thesis unfolding a b by simp
qed

lemma mbis_iteration_step:
  assumes "update_coefficients (old_coefficients st) (exponents st) rho g mv = Inr new"
  shows "\<exists>st'. mbis_iteration rho g mv st = Inr st'
             \<and> old_coefficients st' = new_coefficients st
             \<and> new_coefficients st' = new
             \<and> exponents st' = exponents st"
proof -
  obtain st' where s: "mbis_iteration rho g mv st = Inr st'"
    using mbis_iteration_total[OF assms] by blast
  from mbis_iteration_Inr[OF s] assms show ?thesis using s by auto
qed

lemma update_zero_density:
  "update_coefficients [Some 1] [1] [0, 0] [0, 1] (1 / 1000000) = Inr [Some 0]"
proof -
  have "spec_coefficient_update [1] [1] [0, 0] [0, 1] (1 / 1000000) 0 = 0"
    by (simp add: spec_coefficient_update_def spec_trapezoid_def spec_model_density_def)
  then show ?thesis
    using update_coefficients_spec[of "[1]" "[1]" "[0, 0]" "[0, 1]" "1 / 1000000",
        OF _ _ _ _ _ tolerance_at_examples(3)]
    by simp
qed

lemma fixed_iteration_aborts_example:
  "fixed_iteration_MBIS_method \<lparr>coeffs = Some [1], exps = Some [1]\<rparr>
       [Some 1] [1] [0, 0] [0, 1] 3 (1 / 1000000) = Inl AssertionError"
proof -
  let ?mv = "1 / 1000000 :: real"
  let ?s0 = "mbis_initial_state [Some 1] [1]"
  have u0: "update_coefficients (old_coefficients ?s0) (exponents ?s0) [0, 0] [0, 1] ?mv
              = Inr [Some 0]"
    by (simp add: mbis_initial_state_def update_zero_density)
  obtain s1 where s1: "mbis_iteration [0, 0] [0, 1] ?mv ?s0 = Inr s1"
      "old_coefficients s1 = [Some 1]" "new_coefficients s1 = [Some 0]" "exponents s1 = [1]"
    using mbis_iteration_step[OF u0] by (auto simp: mbis_initial_state_def)
  have u1: "update_coefficients (old_coefficients s1) (exponents s1) [0, 0] [0, 1] ?mv
              = Inr [Some 0]"
    by (simp add: s1 update_zero_density)
  obtain s2 where s2: "mbis_iteration [0, 0] [0, 1] ?mv s1 = Inr s2"
      "old_coefficients s2 = [Some 0]" "exponents s2 = [1]"
    using mbis_iteration_step[OF u1] by (auto simp: s1)
  have u2: "update_coefficients (old_coefficients s2) (exponents s2) [0, 0] [0, 1] ?mv
              = Inl AssertionError"
    by (simp add: s2 update_coefficients_def fl_positive_def)
  have s3: "mbis_iteration [0, 0] [0, 1] ?mv s2 = Inl AssertionError"
    by (simp add: mbis_iteration_def u2)
  have "mbis_loop (Suc (Suc (Suc 0))) [0, 0] [0, 1] ?mv ?s0 = Inl AssertionError"
    by (simp add: s1 s2 s3)
  moreover have "nat 3 = Suc (Suc (Suc 0))" by simp
  ultimately show ?thesis
    by (simp only: fixed_iteration_MBIS_method_def sum.case)
qed

section \<open>The objective\<close>

















section \<open>Slater orbitals and densities\<close>

lemma slater_norm_valid:
  assumes "0 < z" "1 \<le> n"
  shows "fl_times (fl_power (2 * z) n) (fl_sqrt (fl_divide (2 * z) (sp_factorial (2 * n))))
           = Some ((2 * z) ^ nat n * sqrt (2 * z / fact (nat (2 * n))))"
proof -
  have p: "fl_power (2 * z) n = Some ((2 * z) ^ nat n)"
    using assms by (simp add: fl_power_def power_int_def)
  have f: "sp_factorial (2 * n) = fact (nat (2 * n))"
    using assms by (simp add: sp_factorial_def)
  have nz: "(fact (nat (2 * n)) :: real) \<noteq> 0" by simp
  have d: "fl_divide (2 * z) (sp_factorial (2 * n)) = Some (2 * z / fact (nat (2 * n)))"
    unfolding f fl_divide_def using nz by simp
  have "0 \<le> 2 * z / fact (nat (2 * n))" using assms by simp
  then have s: "fl_sqrt (Some (2 * z / fact (nat (2 * n))))
                  = Some (sqrt (2 * z / fact (nat (2 * n))))"
    by (simp add: fl_sqrt_def)
  show ?thesis unfolding p d s by (simp add: fl_times_def)
qed

lemma slater_entry_valid:
  assumes "0 < z" "1 \<le> n"
  shows "fl_times (fl_times (Some ((2 * z) ^ nat n * sqrt (2 * z / fact (nat (2 * n)))))
                            (fl_power r (n - 1)))
                  (Some (exp (- z * r)))
           = Some (spec_slater z n r)"
proof -
  have "fl_power r (n - 1) = Some (r ^ nat (n - 1))"
    using assms by (simp add: fl_power_def power_int_def)
  then show ?thesis by (simp add: fl_times_def spec_slater_def)
qed

lemma slater_orbital_spec:
  assumes pz: "\<forall>z\<in>set exps0. 0 < z" and pn: "\<forall>n\<in>set nums. 1 \<le> n"
    and len: "length exps0 = length nums"
  shows "slater_orbital exps0 nums (array1 pts)
           = Inr (map (\<lambda>r. map (\<lambda>i. Some (spec_slater (exps0 ! i) (nums ! i) r))
                               [0..<length exps0]) pts)"
proof -
  let ?zn = "zip exps0 nums"
  let ?norm = "map (\<lambda>(z, n). fl_times (fl_power (2 * z) n)
                                (fl_sqrt (fl_divide (2 * z) (sp_factorial (2 * n))))) ?zn"
  have bc: "np_broadcast exps0 nums = Inr ?zn" using len by (rule np_broadcast_same)
  have row: "map (\<lambda>((z, n), nm). fl_times (fl_times nm (fl_power r (n - 1)))
                                           (Some (exp (- z * r)))) (zip ?zn ?norm)
               = map (\<lambda>i. Some (spec_slater (exps0 ! i) (nums ! i) r)) [0..<length exps0]"
    for r
  proof (rule nth_equalityI)
    show "length (map (\<lambda>((z, n), nm). fl_times (fl_times nm (fl_power r (n - 1)))
                                           (Some (exp (- z * r)))) (zip ?zn ?norm))
            = length (map (\<lambda>i. Some (spec_slater (exps0 ! i) (nums ! i) r)) [0..<length exps0])"
      using len by simp
  next
    fix i assume "i < length (map (\<lambda>((z, n), nm). fl_times (fl_times nm (fl_power r (n - 1)))
                                           (Some (exp (- z * r)))) (zip ?zn ?norm))"
    then have i: "i < length exps0" "i < length nums" using len by simp_all
    have v: "0 < exps0 ! i" "1 \<le> nums ! i" using pz pn i by simp_all
    have nm: "?norm ! i = Some ((2 * exps0 ! i) ^ nat (nums ! i)
                                * sqrt (2 * exps0 ! i / fact (nat (2 * nums ! i))))"
      using i slater_norm_valid[OF v] by simp
    have "map (\<lambda>((z, n), nm). fl_times (fl_times nm (fl_power r (n - 1)))
                                       (Some (exp (- z * r)))) (zip ?zn ?norm) ! i
            = fl_times (fl_times (?norm ! i) (fl_power r (nums ! i - 1)))
                       (Some (exp (- (exps0 ! i) * r)))"
      using i by simp
    also have "\<dots> = Some (spec_slater (exps0 ! i) (nums ! i) r)"
      unfolding nm by (rule slater_entry_valid[OF v])
    finally show "map (\<lambda>((z, n), nm). fl_times (fl_times nm (fl_power r (n - 1)))
                                       (Some (exp (- z * r)))) (zip ?zn ?norm) ! i
            = map (\<lambda>i. Some (spec_slater (exps0 ! i) (nums ! i) r)) [0..<length exps0] ! i"
      using i by simp
  qed
  show ?thesis
    unfolding slater_orbital_def bc
    by (simp only: sum.case Let_def row) (simp add: array1_def)
qed

lemma derivative_slater_spec:
  assumes pz: "\<forall>z\<in>set exps0. 0 < z" and pn: "\<forall>n\<in>set nums. 1 \<le> n"
    and len: "length exps0 = length nums"
  shows "derivative_slater_type_orbital exps0 nums (array1 pts)
           = Inr (map (\<lambda>r. map (\<lambda>i. Some (spec_slater_derivative (exps0 ! i) (nums ! i) r))
                               [0..<length exps0]) pts)"
proof -
  let ?zn = "zip exps0 nums"
  let ?S = "map (\<lambda>r. map (\<lambda>i. Some (spec_slater (exps0 ! i) (nums ! i) r))
                               [0..<length exps0]) pts"
  let ?f = "\<lambda>(r, slater_row).
                      map (\<lambda>((z, n), s).
                             let deriv_pref =
                                   (if \<bar>r\<bar> < 1 / 10 ^ 10 then Some 0
                                    else map_option (\<lambda>q. q - z) (fl_divide (of_int n - 1) r))
                             in fl_times deriv_pref s)
                          (zip ?zn slater_row)"
  have bc: "np_broadcast exps0 nums = Inr ?zn" using len by (rule np_broadcast_same)
  have so: "slater_orbital exps0 nums (array1 pts) = Inr ?S"
    using assms by (rule slater_orbital_spec)
  have "map ?f (zip (flat (array1 pts)) ?S)
          = map (\<lambda>r. map (\<lambda>i. Some (spec_slater_derivative (exps0 ! i) (nums ! i) r))
                               [0..<length exps0]) pts"
  proof (rule nth_equalityI)
    show "length (map ?f (zip (flat (array1 pts)) ?S))
            = length (map (\<lambda>r. map (\<lambda>i. Some (spec_slater_derivative (exps0 ! i) (nums ! i) r))
                               [0..<length exps0]) pts)"
      by (simp add: array1_def)
  next
    fix j assume "j < length (map ?f (zip (flat (array1 pts)) ?S))"
    then have j: "j < length pts" by (simp add: array1_def)
    let ?r = "pts ! j"
    let ?row = "map (\<lambda>i. Some (spec_slater (exps0 ! i) (nums ! i) ?r)) [0..<length exps0]"
    have "map (\<lambda>((z, n), s).
                 let deriv_pref =
                       (if \<bar>?r\<bar> < 1 / 10 ^ 10 then Some 0
                        else map_option (\<lambda>q. q - z) (fl_divide (of_int n - 1) ?r))
                 in fl_times deriv_pref s) (zip ?zn ?row)
            = map (\<lambda>i. Some (spec_slater_derivative (exps0 ! i) (nums ! i) ?r))
                  [0..<length exps0]"
    proof (rule nth_equalityI)
      show "length (map (\<lambda>((z, n), s).
                 let deriv_pref =
                       (if \<bar>?r\<bar> < 1 / 10 ^ 10 then Some 0
                        else map_option (\<lambda>q. q - z) (fl_divide (of_int n - 1) ?r))
                 in fl_times deriv_pref s) (zip ?zn ?row))
              = length (map (\<lambda>i. Some (spec_slater_derivative (exps0 ! i) (nums ! i) ?r))
                  [0..<length exps0])"
        using len by simp
    next
      fix i assume "i < length (map (\<lambda>((z, n), s).
                 let deriv_pref =
                       (if \<bar>?r\<bar> < 1 / 10 ^ 10 then Some 0
                        else map_option (\<lambda>q. q - z) (fl_divide (of_int n - 1) ?r))
                 in fl_times deriv_pref s) (zip ?zn ?row))"
      then have i: "i < length exps0" "i < length nums" using len by simp_all
      show "map (\<lambda>((z, n), s).
                 let deriv_pref =
                       (if \<bar>?r\<bar> < 1 / 10 ^ 10 then Some 0
                        else map_option (\<lambda>q. q - z) (fl_divide (of_int n - 1) ?r))
                 in fl_times deriv_pref s) (zip ?zn ?row) ! i
              = map (\<lambda>i. Some (spec_slater_derivative (exps0 ! i) (nums ! i) ?r))
                  [0..<length exps0] ! i"
      proof (cases "\<bar>?r\<bar> < 1 / 10 ^ 10")
        case True
        then show ?thesis
          using i by (simp add: fl_times_def spec_slater_derivative_def)
      next
        case False
        then have "?r \<noteq> 0" by auto
        then show ?thesis
          using i False by (simp add: fl_times_def fl_divide_def spec_slater_derivative_def)
      qed
    qed
    then show "map ?f (zip (flat (array1 pts)) ?S) ! j
                 = map (\<lambda>r. map (\<lambda>i. Some (spec_slater_derivative (exps0 ! i) (nums ! i) r))
                               [0..<length exps0]) pts ! j"
      using j by (simp add: array1_def)
  qed
  then show ?thesis
    unfolding derivative_slater_type_orbital_def so bc
    by (simp only: sum.case)
qed

lemma fl_plus_None_right [simp]: "fl_plus a None = None"
  by (cases a) (simp_all add: fl_plus_def)

lemma fl_plus_None_left [simp]: "fl_plus None a = None"
  by (simp add: fl_plus_def)

lemma fl_plus_Some [simp]: "fl_plus (Some x) (Some y) = Some (x + y)"
  by (simp add: fl_plus_def)

lemma fl_weighted_sum_split:
  assumes "length ws1 = length ws" "length ws2 = length ws"
    and "\<forall>k<length ws. ws1 ! k + ws2 ! k = ws ! k"
  shows "fl_plus (fl_sum (map (\<lambda>(p, w). fl_times (fl_times p p) (Some w)) (zip row ws1)))
                 (fl_sum (map (\<lambda>(p, w). fl_times (fl_times p p) (Some w)) (zip row ws2)))
           = fl_sum (map (\<lambda>(p, w). fl_times (fl_times p p) (Some w)) (zip row ws))"
  using assms
proof (induction row arbitrary: ws1 ws2 ws)
  case Nil
  then show ?case by (simp add: fl_sum_def)
next
  case (Cons p ps)
  show ?case
  proof (cases ws)
    case Nil
    then show ?thesis using Cons.prems by (simp add: fl_sum_def)
  next
    case (Cons w ws')
    obtain w1 ws1' where w1: "ws1 = w1 # ws1'" using Cons Cons.prems(1) by (cases ws1) auto
    obtain w2 ws2' where w2: "ws2 = w2 # ws2'" using Cons Cons.prems(2) by (cases ws2) auto
    have hd: "w1 + w2 = w" using Cons.prems(3) Cons w1 w2 by force
    have tl: "\<forall>k<length ws'. ws1' ! k + ws2' ! k = ws' ! k"
      using Cons.prems(3) Cons w1 w2 by force
    have l: "length ws1' = length ws'" "length ws2' = length ws'"
      using Cons.prems(1,2) Cons w1 w2 by simp_all
    let ?S = "\<lambda>v. fl_sum (map (\<lambda>(p, w). fl_times (fl_times p p) (Some w)) (zip ps v))"
    have ih: "fl_plus (?S ws1') (?S ws2') = ?S ws'"
      using Cons.IH[OF l tl] .
    have step: "fl_sum (map (\<lambda>(p, w). fl_times (fl_times p p) (Some w)) (zip (p # ps) (x # v)))
                  = fl_plus (fl_times (fl_times p p) (Some x)) (?S v)" for x v
      by (simp add: fl_sum_def)
    show ?thesis
      unfolding Cons w1 w2 step ih[symmetric] hd[symmetric]
      by (cases p; cases "?S ws1'"; cases "?S ws2'")
         (simp_all add: fl_times_def algebra_simps)
  qed
qed

lemma fl_scale_plus:
  "fl_plus (map_option (\<lambda>d. d / k) a) (map_option (\<lambda>d. d / k) b)
     = map_option (\<lambda>d. d / k) (fl_plus a b)"
  by (cases a; cases b) (simp_all add: add_divide_distrib)

lemma py_index_last:
  "xs \<noteq> [] \<Longrightarrow> length ys = length xs \<Longrightarrow>
   py_index ys (int (length xs) - 1) = Inr (ys ! (length xs - 1))"
  by (cases xs) (simp_all add: py_index_def nat_diff_distrib)

lemma orb_occs_modes:
  assumes "length (orbitals_energy a) = length (orbitals_occupation a)"
    and "orbitals_occupation a \<noteq> []"
  defines "h \<equiv> orbitals_energy a ! (length (orbitals_occupation a) - 1)"
  shows "orb_occs a ''total'' = Inr (orbitals_occupation a)"
    and "orb_occs a ''valence''
           = Inr (map (\<lambda>(occ, en). occ * exp (- ((en - h) ^ 2)))
                      (zip (orbitals_occupation a) (orbitals_energy a)))"
    and "orb_occs a ''core''
           = Inr (map (\<lambda>(occ, en). occ * (1 - exp (- ((en - h) ^ 2))))
                      (zip (orbitals_occupation a) (orbitals_energy a)))"
proof -
  have i: "py_index (orbitals_energy a) (int (length (orbitals_occupation a)) - 1) = Inr h"
    unfolding h_def using py_index_last[OF assms(2) assms(1)] .
  have b: "np_broadcast (orbitals_occupation a) (orbitals_energy a)
             = Inr (zip (orbitals_occupation a) (orbitals_energy a))"
    using assms(1) by (simp add: np_broadcast_same)
  show "orb_occs a ''total'' = Inr (orbitals_occupation a)"
    by (simp add: orb_occs_def)
  show "orb_occs a ''valence''
           = Inr (map (\<lambda>(occ, en). occ * exp (- ((en - h) ^ 2)))
                      (zip (orbitals_occupation a) (orbitals_energy a)))"
    by (simp add: orb_occs_def i b)
  show "orb_occs a ''core''
           = Inr (map (\<lambda>(occ, en). occ * (1 - exp (- ((en - h) ^ 2))))
                      (zip (orbitals_occupation a) (orbitals_energy a)))"
    by (simp add: orb_occs_def i b)
qed

lemma atomic_density_core_valence:
  assumes t: "atomic_density a points ''total'' = Inr t"
    and le: "length (orbitals_energy a) = length (orbitals_occupation a)"
    and ne: "orbitals_occupation a \<noteq> []"
  shows "\<exists>c v. atomic_density a points ''core'' = Inr c
             \<and> atomic_density a points ''valence'' = Inr v
             \<and> length c = length t \<and> length v = length t
             \<and> (\<forall>j<length t. fl_plus (c ! j) (v ! j) = t ! j)"
proof -
  define h where "h = orbitals_energy a ! (length (orbitals_occupation a) - 1)"
  define wv where "wv = map (\<lambda>(occ, en). occ * exp (- ((en - h) ^ 2)))
                            (zip (orbitals_occupation a) (orbitals_energy a))"
  define wc where "wc = map (\<lambda>(occ, en). occ * (1 - exp (- ((en - h) ^ 2))))
                            (zip (orbitals_occupation a) (orbitals_energy a))"
  let ?occ = "orbitals_occupation a"
  let ?row = "\<lambda>ws row. map_option (\<lambda>d. d / (4 * pi))
                 (fl_sum (map (\<lambda>(p, w). fl_times (fl_times p p) (Some w)) (zip row ws)))"
  have ot: "orb_occs a ''total'' = Inr ?occ"
    and ov: "orb_occs a ''valence'' = Inr wv"
    and oc: "orb_occs a ''core'' = Inr wc"
    using orb_occs_modes[OF le ne] unfolding wv_def wc_def h_def by simp_all
  have lw: "length wc = length ?occ" "length wv = length ?occ"
    using le by (simp_all add: wc_def wv_def)
  have sum: "\<forall>k<length ?occ. wc ! k + wv ! k = ?occ ! k"
    using le by (simp add: wc_def wv_def algebra_simps)
  obtain phi where phi: "phi_matrix a points False = Inr phi"
      and lo: "length (orbitals a) = length ?occ"
      and tv: "t = map (?row ?occ) phi"
    using t unfolding atomic_density_def ot
    by (auto split: sum.splits if_splits)
  have c: "atomic_density a points ''core'' = Inr (map (?row wc) phi)"
    unfolding atomic_density_def oc using phi lo lw by simp
  have v: "atomic_density a points ''valence'' = Inr (map (?row wv) phi)"
    unfolding atomic_density_def ov using phi lo lw by simp
  have "fl_plus (map (?row wc) phi ! j) (map (?row wv) phi ! j) = t ! j" if "j < length t" for j
  proof -
    have j: "j < length phi" using that tv by simp
    show ?thesis
      using j by (simp add: tv fl_scale_plus fl_weighted_sum_split[OF lw sum])
  qed
  then show ?thesis using c v tv by simp
qed

lemma hydrogen_total_density:
  "\<exists>t. atomic_density hydrogen (array1 [0, 1]) ''total'' = Inr t \<and> length t = 2"
  by (simp add: atomic_density_def orb_occs_def phi_matrix_def orbital_column_def hydrogen_def
      slater_orbital_def array1_def np_broadcast_def)

section \<open>Claims about the coefficient update\<close>

text \<open>
  Claim C1, as stated, fails on a grid of one point. The trapezoidal sum of the masked
  integrand then has no interval, \<open>numpy.ma\<close> returns the masked constant for it, and the
  update stores NaN (\<open>None\<close>) as the new coefficient, whereas the closed form of the claim
  is a number: the empty trapezoidal sum, 0.
\<close>

theorem update_coefficients_one_point_counterexample:
  "update_coefficients [Some 1] [1] [1] [0] (1 / 1000000) = Inr [None]
   \<and> spec_coefficient_update [1] [1] [1] [0] (1 / 1000000) 0 = 0"
proof -
  have "spec_masked_update [1] [1] [1] [0] (1 / 1000000) 0 = None"
    by (simp add: spec_masked_update_def spec_masked_trapezoid_short)
  then have "update_coefficients [Some 1] [1] [1] [0] (1 / 1000000) = Inr [None]"
    using update_coefficients_masked_spec[of "[1]" "[1]" "[1]" "[0]" "1 / 1000000"] by simp
  moreover have "spec_coefficient_update [1] [1] [1] [0] (1 / 1000000) 0 = 0"
    by (simp add: spec_coefficient_update_def spec_trapezoid_def)
  ultimately show ?thesis by simp
qed

text \<open>
  Claim C1, amended. With strictly positive (finite) initial coefficients and exponents,
  as many coefficients as exponents, a true density sampled on a grid of at least two
  points, and every density value below \<open>masked_value / tiny\<close> in absolute value (\<open>tiny\<close>
  being \<open>finfo(float).tiny\<close>, so that no ratio is masked), the update returns, for every
  primitive \<open>i\<close>, the old coefficient times the normalization \<open>N(zeta_i)\<close> times the
  trapezoidal integral over the grid of
  \<open>true_density / max(model_density, masked_value) * exp(-zeta_i r^2) * r^2\<close>, where
  \<open>N(zeta) = 4 pi (zeta / pi)^(3/2)\<close> and the model density is the normalized Gaussian sum.
\<close>

theorem update_coefficients_closed_form:
  assumes "\<forall>x\<in>set initial_coeffs. 0 < x" and "\<forall>x\<in>set constant_exponents. 0 < x"
    and "length initial_coeffs = length constant_exponents"
    and "length electron_density = length grid"
    and "2 \<le> length grid"
    and "\<forall>d\<in>set electron_density. \<bar>d\<bar> * np_tiny < masked_value"
  shows "update_coefficients (map Some initial_coeffs) constant_exponents electron_density grid
             masked_value
           = Inr (map (\<lambda>i. Some (spec_coefficient_update initial_coeffs constant_exponents
                                    electron_density grid masked_value i))
                      [0..<length initial_coeffs])"
  using assms by (rule update_coefficients_spec)

theorem update_coefficients_closed_form_witness:
  "update_coefficients [Some 1] [1] [0, 2] [0, 3] (1 / 1000000) = Inr [Some 27]"
  using update_coefficients_closed_form[of "[1]" "[1]" "[0, 2]" "[0, 3]" "1 / 1000000",
      OF _ _ _ _ _ tolerance_at_examples(1)]
  by (simp add: spec_update_at_example)

text \<open>
  Claim C8, as stated, fails: strictly positive coefficients and as many exponents do not
  keep the update from failing, since a third assertion compares the number of density
  values with the number of grid points. Here the density has two values, the grid one.
\<close>

theorem update_coefficients_fails_counterexample:
  "update_coefficients [Some 1] [1] [1, 1] [0] (1 / 1000000) = Inl AssertionError"
  by (simp add: update_coefficients_def fl_positive_def)

text \<open>
  Claim C8, amended. The update fails with \<open>AssertionError\<close>, before the model density is
  evaluated, exactly when some initial coefficient is not positive (it is zero,
  negative or NaN), or the coefficient and exponent vectors differ in length, or the
  density and the grid differ in length; in every other case it returns a vector with
  one entry for each coefficient.
\<close>

theorem update_coefficients_validation:
  "(if \<not> list_all fl_positive initial_coeffs
        \<or> length initial_coeffs \<noteq> length constant_exponents
        \<or> length electron_density \<noteq> length grid
    then update_coefficients initial_coeffs constant_exponents electron_density grid masked_value
           = Inl AssertionError
    else (\<exists>new. update_coefficients initial_coeffs constant_exponents electron_density grid
                   masked_value = Inr new
                \<and> length new = length initial_coeffs))"
proof (cases "\<not> list_all fl_positive initial_coeffs
        \<or> length initial_coeffs \<noteq> length constant_exponents
        \<or> length electron_density \<noteq> length grid")
  case True
  then show ?thesis
    using update_coefficients_assert[of initial_coeffs constant_exponents electron_density grid
        masked_value] by simp
next
  case False
  then show ?thesis
    using update_coefficients_total[of initial_coeffs constant_exponents electron_density grid
        masked_value] by simp
qed

theorem update_coefficients_validation_witness:
  "(\<exists>new. update_coefficients [Some 1] [1] [1, 1] [0, 1] (1 / 1000000) = Inr new
          \<and> length new = 1)
   \<and> update_coefficients [Some 0] [1] [1, 1] [0, 1] (1 / 1000000) = Inl AssertionError
   \<and> update_coefficients [Some (- 1)] [1] [1, 1] [0, 1] (1 / 1000000) = Inl AssertionError
   \<and> update_coefficients [Some 1] [1, 2] [1, 1] [0, 1] (1 / 1000000) = Inl AssertionError"
  using update_coefficients_validation[of "[Some 1]" "[1]" "[1, 1]" "[0, 1]" "1 / 1000000"]
    update_coefficients_validation[of "[Some 0]" "[1]" "[1, 1]" "[0, 1]" "1 / 1000000"]
    update_coefficients_validation[of "[Some (- 1)]" "[1]" "[1, 1]" "[0, 1]" "1 / 1000000"]
    update_coefficients_validation[of "[Some 1]" "[1, 2]" "[1, 1]" "[0, 1]" "1 / 1000000"]
  by (simp add: fl_positive_def)

text \<open>
  Claim C2, as stated, fails: the trapezoidal rule weighs each interval by the signed
  difference of its end points, so on a grid of non-negative points listed in
  descending order the update of a positive coefficient is negative.
\<close>

theorem update_coefficients_descending_grid_counterexample:
  "\<exists>v. update_coefficients [Some 1] [1] [1, 1] [1, 0] (1 / 1000000) = Inr [Some v] \<and> v < 0"
proof -
  let ?m = "max (spec_model_density [1] [1] 1) (1 / 1000000)"
  have m: "0 < ?m" by (simp add: less_max_iff_disj)
  have u: "update_coefficients [Some 1] [1] [1, 1] [1, 0] (1 / 1000000)
         = Inr [Some (spec_coefficient_update [1] [1] [1, 1] [1, 0] (1 / 1000000) 0)]"
    using update_coefficients_spec[of "[1]" "[1]" "[1, 1]" "[1, 0]" "1 / 1000000",
        OF _ _ _ _ _ tolerance_at_examples(2)]
    by simp
  have "spec_trapezoid [1, 0] (\<lambda>j. [1, 1] ! j / max (spec_model_density [1] [1] ([1, 0] ! j)) (1 / 1000000)
                                  * exp (- ([1] ! 0) * ([1, 0] ! j) ^ 2) * ([1, 0] ! j) ^ 2)
          = - (1 / ?m * exp (- 1)) / 2"
    by (simp add: spec_trapezoid_def)
  moreover have "0 < 1 / ?m * exp (- 1)" using m by simp
  ultimately have "spec_coefficient_update [1] [1] [1, 1] [1, 0] (1 / 1000000) 0 < 0"
    unfolding spec_coefficient_update_def
    using spec_normalization_pos[of 1] by (simp add: mult_pos_neg)
  then show ?thesis using u by blast
qed

text \<open>
  Claim C2, amended. Whenever the update returns (its assertions make the starting
  coefficients strictly positive), the exponents are positive, the true density is
  non-negative and the grid points are in ascending order, no entry of the returned
  coefficient vector is negative: each is NaN or a non-negative number. If moreover the
  grid has at least two points and every density value is below \<open>masked_value / tiny\<close>
  (\<open>tiny\<close> being \<open>finfo(float).tiny\<close>), no entry is NaN: every entry is a non-negative number.
\<close>

theorem update_coefficients_nonnegative:
  assumes "update_coefficients initial_coeffs constant_exponents electron_density grid
             masked_value = Inr new"
    and "\<forall>x\<in>set constant_exponents. 0 < x"
    and "\<forall>d\<in>set electron_density. 0 \<le> d"
    and "sorted grid"
  shows "(\<forall>v\<in>set new. v = None \<or> (\<exists>x. v = Some x \<and> 0 \<le> x))
       \<and> (2 \<le> length grid \<and> (\<forall>d\<in>set electron_density. d * np_tiny < masked_value)
            \<longrightarrow> (\<forall>v\<in>set new. \<exists>x. v = Some x \<and> 0 \<le> x))"
proof -
  from update_coefficients_Inr_asserts[OF assms(1)]
  have fp: "list_all fl_positive initial_coeffs"
    and lcz': "length initial_coeffs = length constant_exponents"
    and lrg: "length electron_density = length grid" by simp_all
  obtain c where c: "initial_coeffs = map Some c" and pc: "\<forall>x\<in>set c. 0 < x"
    using fl_positive_finite[OF fp] by blast
  have lcz: "length c = length constant_exponents" using lcz' c by simp
  have new: "new = map (spec_masked_update c constant_exponents electron_density grid
                          masked_value) [0..<length c]"
    using update_coefficients_masked_spec[OF pc assms(2) lcz lrg, of masked_value] assms(1) c
    by simp
  have one: "v = None \<or> (\<exists>x. v = Some x \<and> 0 \<le> x)" if "v \<in> set new" for v
  proof -
    from that new obtain i where i: "i < length c"
        and v: "v = spec_masked_update c constant_exponents electron_density grid masked_value i"
      by auto
    show ?thesis
    proof (cases v)
      case None
      then show ?thesis by simp
    next
      case (Some x)
      then have "0 \<le> x"
        using spec_masked_update_nonneg[OF pc assms(2) lcz lrg assms(3) assms(4) i] v by simp
      then show ?thesis using Some by simp
    qed
  qed
  have two: "\<exists>x. v = Some x \<and> 0 \<le> x"
    if "2 \<le> length grid" "\<forall>d\<in>set electron_density. d * np_tiny < masked_value"
      "v \<in> set new" for v
  proof -
    from that(3) new obtain i where i: "i < length c"
        and v: "v = spec_masked_update c constant_exponents electron_density grid masked_value i"
      by auto
    have "\<forall>d\<in>set electron_density. \<bar>d\<bar> * np_tiny < masked_value"
      using that(2) assms(3) by simp
    then have "v = Some (spec_coefficient_update c constant_exponents electron_density grid
                           masked_value i)"
      unfolding v using spec_masked_update_regular[OF that(1) lrg] by blast
    then show ?thesis
      using spec_coefficient_update_nonneg[OF pc assms(2) lcz lrg assms(3) assms(4) i] by simp
  qed
  show ?thesis using one two by blast
qed

theorem update_coefficients_nonnegative_witness:
  "\<exists>new. update_coefficients [Some 1] [1] [1, 1] [0, 1] (1 / 1000000) = Inr new
      \<and> sorted [0, 1::real] \<and> 2 \<le> length [0, 1::real]
      \<and> list_all (\<lambda>v. \<exists>x. v = Some x \<and> 0 \<le> x) new"
proof -
  obtain new where n: "update_coefficients [Some 1] [1] [1, 1] [0, 1] (1 / 1000000) = Inr new"
    using update_coefficients_total[of "[Some 1]" "[1]" "[1, 1]" "[0, 1]" "1 / 1000000"]
    by (auto simp: fl_positive_def)
  have "\<forall>d\<in>set [1, 1::real]. d * np_tiny < 1 / 1000000"
    using tolerance_at_examples(2) by simp
  then have "\<forall>v\<in>set new. \<exists>x. v = Some x \<and> 0 \<le> x"
    using update_coefficients_nonnegative[OF n] by simp
  with n show ?thesis by (auto simp: list_all_iff)
qed

section \<open>Claims about the fixed-iteration method\<close>

text \<open>
  Claim C10, as stated, fails for some calls: the assertions of the coefficient update
  end the loop by an exception. With a true density that is zero on the grid the first
  two iterations return the coefficient 0, and the third update, now given that
  coefficient, raises \<open>AssertionError\<close>: a call with budget 3 records no sequence of
  length 3.
\<close>

theorem fixed_iteration_aborts_counterexample:
  "fixed_iteration_MBIS_method \<lparr>coeffs = Some [1], exps = Some [1]\<rparr>
       [Some 1] [1] [0, 0] [0, 1] 3 (1 / 1000000) = Inl AssertionError"
  by (rule fixed_iteration_aborts_example)

text \<open>
  Claim C10, amended. Take a call with budget \<open>k \<ge> 0\<close>. If it returns, the loop has executed
  the coefficient update exactly \<open>k\<close> times: for every \<open>j < k\<close>, iteration \<open>j\<close> starts from the
  state after \<open>j\<close> iterations, calls \<open>update_coefficients\<close> once, on the old coefficients of
  that state and the exponents passed in, and its result is the new coefficient vector
  of the state after \<open>j + 1\<close> iterations; the counter ends at \<open>k\<close>, each of the first three
  sequences of the history has length exactly \<open>k\<close>, and the exponent vector of every
  state is the one passed in. There is no convergence test and no exit on a tolerance:
  a call that does not return either fails with the \<open>AssertionError\<close> raised by the
  coefficient update of some iteration \<open>j < k\<close>, reached after \<open>j\<close> full iterations, or, all
  \<open>k\<close> iterations done, with the \<open>NameError\<close> of the return statement, which reads two
  module globals.
\<close>

theorem fixed_iteration_count:
  assumes "0 \<le> num_of_iterations"
  shows "(\<forall>p h. fixed_iteration_MBIS_method globals coefficients exps0 electron_density grid
                    num_of_iterations masked_value = Inr (p, h) \<longrightarrow>
            (\<exists>st. mbis_loop (nat num_of_iterations) electron_density grid masked_value
                     (mbis_initial_state coefficients exps0) = Inr st
                \<and> error_array st = h
                \<and> int (counter st) = num_of_iterations
                \<and> exponents st = exps0
                \<and> int (length (h ! 0)) = num_of_iterations
                \<and> int (length (h ! 1)) = num_of_iterations
                \<and> int (length (h ! 2)) = num_of_iterations)
          \<and> (\<forall>j<nat num_of_iterations. \<exists>s s'.
                  mbis_loop j electron_density grid masked_value
                    (mbis_initial_state coefficients exps0) = Inr s
                \<and> mbis_loop (Suc j) electron_density grid masked_value
                    (mbis_initial_state coefficients exps0) = Inr s'
                \<and> update_coefficients (old_coefficients s) exps0 electron_density grid
                    masked_value = Inr (new_coefficients s')
                \<and> old_coefficients s' = new_coefficients s
                \<and> exponents s' = exps0
                \<and> counter s' = Suc j))
       \<and> (\<forall>e. fixed_iteration_MBIS_method globals coefficients exps0 electron_density grid
                  num_of_iterations masked_value = Inl e \<longrightarrow>
            (e = AssertionError
               \<and> (\<exists>j<nat num_of_iterations. \<exists>s.
                      mbis_loop j electron_density grid masked_value
                        (mbis_initial_state coefficients exps0) = Inr s
                    \<and> update_coefficients (old_coefficients s) exps0 electron_density grid
                        masked_value = Inl AssertionError))
          \<or> (e = NameError
               \<and> (coeffs globals = None \<or> exps globals = None)
               \<and> (\<exists>st. mbis_loop (nat num_of_iterations) electron_density grid masked_value
                          (mbis_initial_state coefficients exps0) = Inr st
                     \<and> int (counter st) = num_of_iterations)))"
proof (intro conjI allI impI)
  fix p h
  assume r: "fixed_iteration_MBIS_method globals coefficients exps0 electron_density grid
               num_of_iterations masked_value = Inr (p, h)"
  obtain st where st: "mbis_loop (nat num_of_iterations) electron_density grid masked_value
                 (mbis_initial_state coefficients exps0) = Inr st" "error_array st = h"
    using fixed_iteration_Inr[OF r] by blast
  have "history_after (nat num_of_iterations) coefficients exps0 electron_density grid
          masked_value st"
    using mbis_loop_history[OF st(1)] .
  then show "\<exists>st. mbis_loop (nat num_of_iterations) electron_density grid masked_value
                     (mbis_initial_state coefficients exps0) = Inr st
                \<and> error_array st = h
                \<and> int (counter st) = num_of_iterations
                \<and> exponents st = exps0
                \<and> int (length (h ! 0)) = num_of_iterations
                \<and> int (length (h ! 1)) = num_of_iterations
                \<and> int (length (h ! 2)) = num_of_iterations"
    using st assms unfolding history_after_def by auto
  fix j assume "j < nat num_of_iterations"
  then show "\<exists>s s'.
                  mbis_loop j electron_density grid masked_value
                    (mbis_initial_state coefficients exps0) = Inr s
                \<and> mbis_loop (Suc j) electron_density grid masked_value
                    (mbis_initial_state coefficients exps0) = Inr s'
                \<and> update_coefficients (old_coefficients s) exps0 electron_density grid
                    masked_value = Inr (new_coefficients s')
                \<and> old_coefficients s' = new_coefficients s
                \<and> exponents s' = exps0
                \<and> counter s' = Suc j"
    using mbis_loop_trace[OF st(1)] by blast
next
  fix e
  assume l: "fixed_iteration_MBIS_method globals coefficients exps0 electron_density grid
               num_of_iterations masked_value = Inl e"
  from fixed_iteration_Inl[OF l] consider
      (assertion) err where
        "mbis_loop (nat num_of_iterations) electron_density grid masked_value
           (mbis_initial_state coefficients exps0) = Inl err" "e = err"
    | (name) st where
        "mbis_loop (nat num_of_iterations) electron_density grid masked_value
           (mbis_initial_state coefficients exps0) = Inr st" "e = NameError"
        "coeffs globals = None \<or> exps globals = None"
    by blast
  then show "(e = AssertionError
               \<and> (\<exists>j<nat num_of_iterations. \<exists>s.
                      mbis_loop j electron_density grid masked_value
                        (mbis_initial_state coefficients exps0) = Inr s
                    \<and> update_coefficients (old_coefficients s) exps0 electron_density grid
                        masked_value = Inl AssertionError))
          \<or> (e = NameError
               \<and> (coeffs globals = None \<or> exps globals = None)
               \<and> (\<exists>st. mbis_loop (nat num_of_iterations) electron_density grid masked_value
                          (mbis_initial_state coefficients exps0) = Inr st
                     \<and> int (counter st) = num_of_iterations))"
  proof cases
    case assertion
    show ?thesis using mbis_loop_Inl[OF assertion(1)] assertion(2) by blast
  next
    case name
    have "counter st = nat num_of_iterations"
      using mbis_loop_history[OF name(1)] by (simp add: history_after_def)
    then have "int (counter st) = num_of_iterations" using assms by simp
    then show ?thesis using name by blast
  qed
qed

theorem fixed_iteration_count_witness:
  "(\<exists>st. mbis_loop (nat 1) [1, 1] [0, 1] (1 / 1000000) (mbis_initial_state [Some 1] [1])
           = Inr st
       \<and> update_coefficients [Some 1] [1] [1, 1] [0, 1] (1 / 1000000)
           = Inr (new_coefficients st)
       \<and> old_coefficients st = [Some 1]
       \<and> int (counter st) = 1 \<and> exponents st = [1]
       \<and> int (length (error_array st ! 0)) = 1
       \<and> int (length (error_array st ! 1)) = 1
       \<and> int (length (error_array st ! 2)) = 1)
   \<and> (\<exists>j<nat 3. \<exists>s.
          mbis_loop j [0, 0] [0, 1] (1 / 1000000) (mbis_initial_state [Some 1] [1]) = Inr s
        \<and> update_coefficients (old_coefficients s) [1] [0, 0] [0, 1] (1 / 1000000)
            = Inl AssertionError)"
proof
  let ?s0 = "mbis_initial_state [Some 1] [1]"
  obtain h where h: "fixed_iteration_MBIS_method \<lparr>coeffs = Some [1], exps = Some [1]\<rparr>
                    [Some 1] [1] [1, 1] [0, 1] 1 (1 / 1000000) = Inr (([1], [1]), h)"
    using fixed_iteration_returns_once[of "[Some 1]" "[1]" "[1, 1]" "[0, 1]"
        "\<lparr>coeffs = Some [1], exps = Some [1]\<rparr>" "[1]" "[1]" "1 / 1000000"]
    by (auto simp: fl_positive_def)
  note c = fixed_iteration_count[of 1 "\<lparr>coeffs = Some [1], exps = Some [1]\<rparr>" "[Some 1]" "[1]"
      "[1, 1]" "[0, 1]" "1 / 1000000"]
  from c h obtain st where st:
      "mbis_loop (nat 1) [1, 1] [0, 1] (1 / 1000000) ?s0 = Inr st"
      "error_array st = h" "int (counter st) = 1" "exponents st = [1]"
      "int (length (h ! 0)) = 1" "int (length (h ! 1)) = 1" "int (length (h ! 2)) = 1"
    by auto
  from c h have "\<forall>j<nat 1. \<exists>s s'.
                  mbis_loop j [1, 1] [0, 1] (1 / 1000000) ?s0 = Inr s
                \<and> mbis_loop (Suc j) [1, 1] [0, 1] (1 / 1000000) ?s0 = Inr s'
                \<and> update_coefficients (old_coefficients s) [1] [1, 1] [0, 1] (1 / 1000000)
                    = Inr (new_coefficients s')
                \<and> old_coefficients s' = new_coefficients s
                \<and> exponents s' = [1]
                \<and> counter s' = Suc j"
    by auto
  then obtain s s' where t:
      "mbis_loop 0 [1, 1] [0, 1] (1 / 1000000) ?s0 = Inr s"
      "mbis_loop (Suc 0) [1, 1] [0, 1] (1 / 1000000) ?s0 = Inr s'"
      "update_coefficients (old_coefficients s) [1] [1, 1] [0, 1] (1 / 1000000)
         = Inr (new_coefficients s')"
      "old_coefficients s' = new_coefficients s"
    by auto
  have s: "s = ?s0" using t(1) by simp
  have s': "s' = st" using t(2) st(1) by simp
  have "update_coefficients [Some 1] [1] [1, 1] [0, 1] (1 / 1000000) = Inr (new_coefficients st)"
    using t(3) by (simp add: s s' mbis_initial_state_def)
  moreover have "old_coefficients st = [Some 1]"
    using t(4) by (simp add: s s' mbis_initial_state_def)
  ultimately show "\<exists>st. mbis_loop (nat 1) [1, 1] [0, 1] (1 / 1000000) ?s0 = Inr st
       \<and> update_coefficients [Some 1] [1] [1, 1] [0, 1] (1 / 1000000)
           = Inr (new_coefficients st)
       \<and> old_coefficients st = [Some 1]
       \<and> int (counter st) = 1 \<and> exponents st = [1]
       \<and> int (length (error_array st ! 0)) = 1
       \<and> int (length (error_array st ! 1)) = 1
       \<and> int (length (error_array st ! 2)) = 1"
    using st by auto
next
  show "\<exists>j<nat 3. \<exists>s.
          mbis_loop j [0, 0] [0, 1] (1 / 1000000) (mbis_initial_state [Some 1] [1]) = Inr s
        \<and> update_coefficients (old_coefficients s) [1] [0, 0] [0, 1] (1 / 1000000)
            = Inl AssertionError"
    using fixed_iteration_count[of 3 "\<lparr>coeffs = Some [1], exps = Some [1]\<rparr>" "[Some 1]" "[1]"
        "[0, 0]" "[0, 1]" "1 / 1000000"] fixed_iteration_aborts_example
    by simp
qed

text \<open>
  Claim C9, as stated, fails on the order of the history: the first sequence holds the
  integration error, the second the integrated model mass. After one iteration on the
  grid \<open>[0, 3]\<close> the two differ. The returned pair \<open>(coeffs, exps)\<close> is read from the two
  module globals, here the starting values \<open>[1]\<close> and \<open>[1]\<close>, while the updated coefficient
  is 27.
\<close>

theorem fixed_iteration_history_counterexample:
  "\<exists>h e m. fixed_iteration_MBIS_method \<lparr>coeffs = Some [1], exps = Some [1]\<rparr>
                [Some 1] [1] [0, 2] [0, 3] 1 (1 / 1000000) = Inr (([1], [1]), h)
           \<and> update_coefficients [Some 1] [1] [0, 2] [0, 3] (1 / 1000000) = Inr [Some 27]
           \<and> integrate_error [Some 27] [1] [0, 2] [0, 3] = Inr (Some e)
           \<and> integrate_normalized_model [Some 27] [1] [0, 2] [0, 3] = Inr (Some m)
           \<and> h ! 0 = [Some e] \<and> h ! 1 = [Some m] \<and> e \<noteq> m \<and> length h = 6"
proof -
  define e0 where "e0 = 27 * \<bar>exp (- 9) * (get_normalization_constant 1 * 27) - 2\<bar> / 2"
  define m0 where "m0 = 729 * (exp (- 9) * get_normalization_constant 1) / 2"
  have e: "integrate_error [Some 27] [1] [0, 2] [0, 3] = Inr (Some e0)"
    unfolding e0_def by (rule integrate_error_at_example)
  have m: "integrate_normalized_model [Some 27] [1] [0, 2] [0, 3] = Inr (Some m0)"
    unfolding m0_def by (rule integrate_model_at_example)
  have ne: "e0 \<noteq> m0"
    unfolding e0_def m0_def by (rule error_differs_from_mass_at_example)
  obtain ob where ob: "KL_objective_function [Some 27] [1] [0, 2] [0, 3] = Inr ob"
    using KL_objective_function_total[of "[Some 27]" "[1]" "[0, 2]" "[0, 3]"] by auto
  obtain gm where gm: "normalized_gaussian_model [Some 27] [1] [0, 3] = Inr gm"
    using normalized_gaussian_model_total[of "[Some 27]" "[1]" "[0, 3]"] by auto
  have r: "fixed_iteration_MBIS_method \<lparr>coeffs = Some [1], exps = Some [1]\<rparr>
                [Some 1] [1] [0, 2] [0, 3] 1 (1 / 1000000)
          = Inr (([1], [1]), [[Some e0], [Some m0], [ob], [], [], []])"
    by (simp add: fixed_iteration_MBIS_method_def mbis_initial_state_def mbis_iteration_def
        update_at_example gm e m ob append_at_def)
  have "[[Some e0], [Some m0], [ob], [], [], []] ! 0 = [Some e0]"
       "[[Some e0], [Some m0], [ob], [], [], []] ! 1 = [Some m0]"
       "length [[Some e0], [Some m0], [ob], [], [], []] = 6"
    by simp_all
  with r update_at_example e m ne show ?thesis by blast
qed

text \<open>
  Claim C9, amended. For every completed run the second component of the returned value
  is the diagnostic history, a list of six sequences: the first three are parallel, of
  length the iteration budget, and hold for iteration \<open>j\<close> the integration error, the
  integrated model mass and the objective value, in this order, of the coefficient
  vector computed in iteration \<open>j\<close> with the exponents passed in; the last three are
  empty.
\<close>

theorem fixed_iteration_history:
  assumes "fixed_iteration_MBIS_method globals coefficients exps0 electron_density grid
             num_of_iterations masked_value = Inr (p, h)"
  shows "\<exists>errs masses objs.
           h = [errs, masses, objs, [], [], []]
         \<and> length errs = nat num_of_iterations
         \<and> length masses = nat num_of_iterations
         \<and> length objs = nat num_of_iterations
         \<and> (\<forall>j<nat num_of_iterations. \<exists>s.
               mbis_loop (Suc j) electron_density grid masked_value
                 (mbis_initial_state coefficients exps0) = Inr s
             \<and> integrate_error (new_coefficients s) exps0 electron_density grid
                 = Inr (errs ! j)
             \<and> integrate_normalized_model (new_coefficients s) exps0 electron_density grid
                 = Inr (masses ! j)
             \<and> KL_objective_function (new_coefficients s) exps0 electron_density grid
                 = Inr (objs ! j))"
proof -
  obtain st where st: "mbis_loop (nat num_of_iterations) electron_density grid masked_value
                 (mbis_initial_state coefficients exps0) = Inr st" "error_array st = h"
    using fixed_iteration_Inr[OF assms(1)] by blast
  have "history_after (nat num_of_iterations) coefficients exps0 electron_density grid
          masked_value st"
    using mbis_loop_history[OF st(1)] .
  then show ?thesis
    unfolding history_after_def st(2) by blast
qed

theorem fixed_iteration_history_witness:
  "\<exists>h errs masses objs s.
       fixed_iteration_MBIS_method \<lparr>coeffs = Some [1], exps = Some [1]\<rparr>
           [Some 1] [1] [1, 1] [0, 1] 1 (1 / 1000000) = Inr (([1], [1]), h)
     \<and> h = [errs, masses, objs, [], [], []]
     \<and> length errs = 1 \<and> length masses = 1 \<and> length objs = 1
     \<and> mbis_loop 1 [1, 1] [0, 1] (1 / 1000000) (mbis_initial_state [Some 1] [1]) = Inr s
     \<and> integrate_error (new_coefficients s) [1] [1, 1] [0, 1] = Inr (errs ! 0)
     \<and> integrate_normalized_model (new_coefficients s) [1] [1, 1] [0, 1] = Inr (masses ! 0)
     \<and> KL_objective_function (new_coefficients s) [1] [1, 1] [0, 1] = Inr (objs ! 0)"
proof -
  obtain h where h: "fixed_iteration_MBIS_method \<lparr>coeffs = Some [1], exps = Some [1]\<rparr>
                    [Some 1] [1] [1, 1] [0, 1] 1 (1 / 1000000) = Inr (([1], [1]), h)"
    using fixed_iteration_returns_once[of "[Some 1]" "[1]" "[1, 1]" "[0, 1]"
        "\<lparr>coeffs = Some [1], exps = Some [1]\<rparr>" "[1]" "[1]" "1 / 1000000"]
    by (auto simp: fl_positive_def)
  from fixed_iteration_history[OF h] obtain errs masses objs where
    a: "h = [errs, masses, objs, [], [], []]" "length errs = 1" "length masses = 1"
       "length objs = 1"
    and b: "\<forall>j<nat 1. \<exists>s.
               mbis_loop (Suc j) [1, 1] [0, 1] (1 / 1000000) (mbis_initial_state [Some 1] [1])
                 = Inr s
             \<and> integrate_error (new_coefficients s) [1] [1, 1] [0, 1] = Inr (errs ! j)
             \<and> integrate_normalized_model (new_coefficients s) [1] [1, 1] [0, 1]
                 = Inr (masses ! j)
             \<and> KL_objective_function (new_coefficients s) [1] [1, 1] [0, 1] = Inr (objs ! j)"
    by auto
  from b have "\<exists>s.
               mbis_loop (Suc 0) [1, 1] [0, 1] (1 / 1000000) (mbis_initial_state [Some 1] [1])
                 = Inr s
             \<and> integrate_error (new_coefficients s) [1] [1, 1] [0, 1] = Inr (errs ! 0)
             \<and> integrate_normalized_model (new_coefficients s) [1] [1, 1] [0, 1]
                 = Inr (masses ! 0)
             \<and> KL_objective_function (new_coefficients s) [1] [1, 1] [0, 1] = Inr (objs ! 0)"
    by simp
  then show ?thesis using h a by (simp only: One_nat_def) blast
qed

section \<open>Claims about the Kullback-Leibler objective\<close>




section \<open>Claims about the Slater orbitals and the atomic density\<close>

text \<open>
  Claim C3. For a one-dimensional grid of N points and M Slater functions with exponents
  \<open>zeta_i > 0\<close> and quantum numbers \<open>n_i \<ge> 1\<close>, \<open>slater_orbital\<close> returns the N-by-M matrix
  whose entry \<open>(j, i)\<close> is the finite value
  \<open>(2 zeta_i)^(n_i) * sqrt(2 zeta_i / (2 n_i)!) * r_j^(n_i - 1) * exp(-zeta_i r_j)\<close>.
\<close>

theorem slater_orbital_matrix:
  assumes "\<forall>z\<in>set exponent. 0 < z" and "\<forall>n\<in>set number. 1 \<le> n"
    and "length exponent = length number"
  shows "\<exists>S. slater_orbital exponent number (array1 points) = Inr S
           \<and> length S = length points
           \<and> (\<forall>j<length points. length (S ! j) = length exponent
                \<and> (\<forall>i<length exponent.
                      S ! j ! i = Some (spec_slater (exponent ! i) (number ! i) (points ! j))))"
  using slater_orbital_spec[OF assms, of points] by simp

theorem slater_orbital_matrix_witness:
  "\<exists>S. slater_orbital [1, 2] [1, 2] (array1 [0, 1]) = Inr S
      \<and> length S = 2
      \<and> S ! 0 ! 0 = Some (spec_slater 1 1 0) \<and> S ! 0 ! 1 = Some (spec_slater 2 2 0)
      \<and> S ! 1 ! 0 = Some (spec_slater 1 1 1) \<and> S ! 1 ! 1 = Some (spec_slater 2 2 1)"
proof -
  from slater_orbital_matrix[of "[1, 2]" "[1, 2]" "[0, 1]"]
  obtain S where s: "slater_orbital [1, 2] [1, 2] (array1 [0, 1]) = Inr S" "length S = 2"
    and e: "\<forall>j<length [0, 1::real]. length (S ! j) = length [1, 2::real]
                \<and> (\<forall>i<length [1, 2::real].
                      S ! j ! i = Some (spec_slater ([1, 2] ! i) ([1, 2] ! i) ([0, 1] ! j)))"
    by auto
  from e have "S ! 0 ! 0 = Some (spec_slater 1 1 0)" "S ! 0 ! 1 = Some (spec_slater 2 2 0)"
      "S ! 1 ! 0 = Some (spec_slater 1 1 1)" "S ! 1 ! 1 = Some (spec_slater 2 2 1)"
    by force+
  with s show ?thesis by blast
qed

text \<open>
  Claim C4. For valid exponents and quantum numbers (\<open>zeta_i > 0\<close>, \<open>n_i \<ge> 1\<close>) and a
  one-dimensional grid, \<open>derivative_slater_type_orbital\<close> returns a matrix of finite
  values: exactly 0 in every row whose grid point is below \<open>1e-10\<close> in absolute value (so
  at \<open>r = 0\<close>), and \<open>((n - 1) / r - zeta)\<close> times the Slater orbital elsewhere.
\<close>

theorem derivative_slater_matrix:
  assumes "\<forall>z\<in>set exponent. 0 < z" and "\<forall>n\<in>set number. 1 \<le> n"
    and "length exponent = length number"
  shows "\<exists>D. derivative_slater_type_orbital exponent number (array1 points) = Inr D
           \<and> length D = length points
           \<and> (\<forall>j<length points. length (D ! j) = length exponent
                \<and> (\<forall>i<length exponent.
                      D ! j ! i =
                        Some (if \<bar>points ! j\<bar> < 1 / 10 ^ 10 then 0
                              else ((of_int (number ! i) - 1) / (points ! j) - exponent ! i)
                                     * spec_slater (exponent ! i) (number ! i) (points ! j))))"
  using derivative_slater_spec[OF assms, of points]
  by (simp add: spec_slater_derivative_def)

theorem derivative_slater_matrix_witness:
  "\<exists>D. derivative_slater_type_orbital [1, 2] [1, 2] (array1 [0, 1]) = Inr D
      \<and> length D = 2
      \<and> D ! 0 ! 0 = Some 0 \<and> D ! 0 ! 1 = Some 0
      \<and> D ! 1 ! 0 = Some (((1 - 1) / 1 - 1) * spec_slater 1 1 1)
      \<and> D ! 1 ! 1 = Some (((2 - 1) / 1 - 2) * spec_slater 2 2 1)"
proof -
  from derivative_slater_matrix[of "[1, 2]" "[1, 2]" "[0, 1]"]
  obtain D where s: "derivative_slater_type_orbital [1, 2] [1, 2] (array1 [0, 1]) = Inr D"
      "length D = 2"
    and e: "\<forall>j<length [0, 1::real]. length (D ! j) = length [1, 2::real]
                \<and> (\<forall>i<length [1, 2::real].
                      D ! j ! i =
                        Some (if \<bar>[0, 1::real] ! j\<bar> < 1 / 10 ^ 10 then 0
                              else ((of_int ([1, 2] ! i) - 1) / ([0, 1] ! j) - [1, 2] ! i)
                                     * spec_slater ([1, 2] ! i) ([1, 2] ! i) ([0, 1] ! j)))"
    by auto
  from e have "D ! 0 ! 0 = Some 0" "D ! 0 ! 1 = Some 0"
      "D ! 1 ! 0 = Some (((1 - 1) / 1 - 1) * spec_slater 1 1 1)"
      "D ! 1 ! 1 = Some (((2 - 1) / 1 - 2) * spec_slater 2 2 1)"
    by force+
  with s show ?thesis by blast
qed

text \<open>
  Claim C5. Whenever the total density of an atom is computed on a grid (the atom having
  at least one orbital and one energy for each occupation), the core and the valence
  densities are computed too, on the same points, and at every point the core value plus
  the valence value is the total value (both non-finite where the total is): the
  weights \<open>exp(-(e_i - e)^2)\<close> and \<open>1 - exp(-(e_i - e)^2)\<close> add up to 1. In real arithmetic
  the equality is exact.
\<close>

theorem atomic_density_core_plus_valence:
  assumes "atomic_density a points ''total'' = Inr t"
    and "length (orbitals_energy a) = length (orbitals_occupation a)"
    and "orbitals_occupation a \<noteq> []"
  shows "\<exists>c v. atomic_density a points ''core'' = Inr c
             \<and> atomic_density a points ''valence'' = Inr v
             \<and> length c = length t \<and> length v = length t
             \<and> (\<forall>j<length t. fl_plus (c ! j) (v ! j) = t ! j)"
  using assms by (rule atomic_density_core_valence)

theorem atomic_density_core_plus_valence_witness:
  "\<exists>t c v. atomic_density hydrogen (array1 [0, 1]) ''total'' = Inr t
         \<and> atomic_density hydrogen (array1 [0, 1]) ''core'' = Inr c
         \<and> atomic_density hydrogen (array1 [0, 1]) ''valence'' = Inr v
         \<and> length t = 2
         \<and> fl_plus (c ! 0) (v ! 0) = t ! 0 \<and> fl_plus (c ! 1) (v ! 1) = t ! 1"
proof -
  obtain t where t: "atomic_density hydrogen (array1 [0, 1]) ''total'' = Inr t" "length t = 2"
    using hydrogen_total_density by blast
  have "length (orbitals_energy hydrogen) = length (orbitals_occupation hydrogen)"
       "orbitals_occupation hydrogen \<noteq> []"
    by (simp_all add: hydrogen_def)
  from atomic_density_core_plus_valence[OF t(1) this]
  obtain c v where "atomic_density hydrogen (array1 [0, 1]) ''core'' = Inr c"
      "atomic_density hydrogen (array1 [0, 1]) ''valence'' = Inr v"
      "\<forall>j<length t. fl_plus (c ! j) (v ! j) = t ! j"
    by blast
  with t show ?thesis by force
qed

text \<open>
  Claim C6 holds of the documentation, not of the code: the reference energy is read at
  the last index of the orbital list, which is ordered by angular type, not by energy.
  For potassium that is the 3P orbital, whose energy is below that of the
  highest-occupied orbital 4S: the valence mode leaves the occupation of 3P unchanged
  and lowers that of 4S.
\<close>

theorem orb_homo_potassium:
  "py_index (orbitals_energy potassium) (int (length (orbitals_occupation potassium)) - 1)
     = Inr (orbitals_energy potassium ! 5)
   \<and> orbitals potassium ! 5 = ''3P'' \<and> orbitals potassium ! 3 = ''4S''
   \<and> orbitals_energy potassium ! 5 < orbitals_energy potassium ! 3
   \<and> Max (set (orbitals_energy potassium)) = orbitals_energy potassium ! 3
   \<and> (\<exists>w. orb_occs potassium ''valence'' = Inr w
          \<and> w ! 5 = orbitals_occupation potassium ! 5
          \<and> w ! 3 < orbitals_occupation potassium ! 3)"
proof -
  have i: "py_index (orbitals_energy potassium) (int (length (orbitals_occupation potassium)) - 1)
     = Inr (orbitals_energy potassium ! 5)"
    by (simp add: potassium_def py_index_def)
  have w: "orb_occs potassium ''valence''
             = Inr (map (\<lambda>(occ, en). occ * exp (- ((en - orbitals_energy potassium ! 5) ^ 2)))
                      (zip (orbitals_occupation potassium) (orbitals_energy potassium)))"
    using orb_occs_modes(2)[of potassium] by (simp add: potassium_def)
  have "exp (- ((- 1474751 / 10000000 - (- 9544227 / 10000000 :: real)) ^ 2)) < 1"
    by (subst exp_less_one_iff) simp
  then have "map (\<lambda>(occ, en). occ * exp (- ((en - orbitals_energy potassium ! 5) ^ 2)))
                 (zip (orbitals_occupation potassium) (orbitals_energy potassium)) ! 3
               < orbitals_occupation potassium ! 3"
    by (simp add: potassium_def)
  moreover have "map (\<lambda>(occ, en). occ * exp (- ((en - orbitals_energy potassium ! 5) ^ 2)))
                 (zip (orbitals_occupation potassium) (orbitals_energy potassium)) ! 5
               = orbitals_occupation potassium ! 5"
    by (simp add: potassium_def)
  moreover have "orbitals potassium ! 5 = ''3P''" "orbitals potassium ! 3 = ''4S''"
      "orbitals_energy potassium ! 5 < orbitals_energy potassium ! 3"
      "Max (set (orbitals_energy potassium)) = orbitals_energy potassium ! 3"
    by (simp_all add: potassium_def)
  ultimately show ?thesis using i w by blast
qed

end
